theory Spec2Isabelle
  imports Main
begin

section \<open>JavaScript values seen by the step runner\<close>

text \<open>
  The runner catches whatever a step module throws (\<^verbatim>\<open>catch (error: any)\<close>), so thrown
  values are modelled by a datatype of JavaScript values. \<open>JObj isErr ps\<close> is an object;
  \<open>isErr\<close> says whether it is an \<^verbatim>\<open>instanceof Error\<close>, and \<open>ps\<close> lists the properties a
  read finds on it, its own and those of its class (the first entry of a name wins).
  Numbers are integers; functions, symbols and floating point are outside the model.
\<close>

datatype jsval =
    JUndefined
  | JNull
  | JBool bool
  | JNum int
  | JStr string
  | JArr "jsval list"
  | JObj bool "(string \<times> jsval) list"

text \<open>JavaScript truthiness, as used by \<^verbatim>\<open>||\<close>, \<^verbatim>\<open>!\<close> and \<^verbatim>\<open>if\<close>.\<close>

fun truthy :: "jsval \<Rightarrow> bool" where
  "truthy JUndefined = False"
| "truthy JNull = False"
| "truthy (JBool b) = b"
| "truthy (JNum n) = (n \<noteq> 0)"
| "truthy (JStr s) = (s \<noteq> [])"
| "truthy (JArr xs) = True"
| "truthy (JObj isErr ps) = True"

text \<open>
  \<open>get v k\<close> is the optional-chaining read \<^verbatim>\<open>v?.k\<close> for the property names the runner
  reads (name, message, stack, errors, line, column, file). None of them is defined on
  the prototypes of primitives or arrays. An Error instance inherits \<^verbatim>\<open>name = "Error"\<close>
  and \<^verbatim>\<open>message = ""\<close> from \<^verbatim>\<open>Error.prototype\<close> when it has none of its own.
\<close>

fun get :: "jsval \<Rightarrow> string \<Rightarrow> jsval" where
  "get (JObj isErr ps) k =
     (case map_of ps k of
        Some v \<Rightarrow> v
      | None \<Rightarrow>
          if isErr \<and> k = ''name'' then JStr ''Error''
          else if isErr \<and> k = ''message'' then JStr []
          else JUndefined)"
| "get JUndefined k = JUndefined"
| "get JNull k = JUndefined"
| "get (JBool b) k = JUndefined"
| "get (JNum n) k = JUndefined"
| "get (JStr s) k = JUndefined"
| "get (JArr xs) k = JUndefined"

fun is_array :: "jsval \<Rightarrow> bool" where
  "is_array (JArr xs) = True"
| "is_array v = False"

fun array_items :: "jsval \<Rightarrow> jsval list" where
  "array_items (JArr xs) = xs"
| "array_items v = []"

fun is_Error :: "jsval \<Rightarrow> bool" where
  "is_Error (JObj isErr ps) = isErr"
| "is_Error v = False"

fun is_string :: "jsval \<Rightarrow> bool" where
  "is_string (JStr s) = True"
| "is_string v = False"

subsection \<open>String conversion\<close>

definition digit_char :: "nat \<Rightarrow> char" where
  "digit_char d = ''0123456789'' ! d"

fun string_of_nat :: "nat \<Rightarrow> string" where
  "string_of_nat n =
     (if n < 10 then [digit_char n]
      else string_of_nat (n div 10) @ [digit_char (n mod 10)])"

definition string_of_int :: "int \<Rightarrow> string" where
  "string_of_int i =
     (if i < 0 then CHR ''-'' # string_of_nat (nat (- i)) else string_of_nat (nat i))"

fun intercalate :: "string \<Rightarrow> string list \<Rightarrow> string" where
  "intercalate sep [] = []"
| "intercalate sep [x] = x"
| "intercalate sep (x # y # ys) = x @ sep @ intercalate sep (y # ys)"

lemma size_map_of:
  "map_of ps k = Some v \<Longrightarrow> size v < Suc (size_list (size_prod (\<lambda>_. 0) size) ps)"
  by (induction ps) (auto split: if_splits)

text \<open>
  \<^verbatim>\<open>String(v)\<close>. An array joins its elements with commas, null and undefined elements
  as the empty string; a plain object is \<^verbatim>\<open>[object Object]\<close>; an Error instance goes
  through \<^verbatim>\<open>Error.prototype.toString\<close> (name, message, or \<^verbatim>\<open>name: message\<close>).
\<close>

function js_String :: "jsval \<Rightarrow> string" where
  "js_String JUndefined = ''undefined''"
| "js_String JNull = ''null''"
| "js_String (JBool b) = (if b then ''true'' else ''false'')"
| "js_String (JNum n) = string_of_int n"
| "js_String (JStr s) = s"
| "js_String (JArr xs) =
     intercalate '','' (map (\<lambda>x. if x = JUndefined \<or> x = JNull then [] else js_String x) xs)"
| "js_String (JObj isErr ps) =
     (if \<not> isErr then ''[object Object]''
      else
        (let name = (case map_of ps ''name'' of
                       None \<Rightarrow> ''Error''
                     | Some v \<Rightarrow> if v = JUndefined then ''Error'' else js_String v);
             msg = (case map_of ps ''message'' of
                      None \<Rightarrow> []
                    | Some v \<Rightarrow> if v = JUndefined then [] else js_String v)
         in if name = [] then msg else if msg = [] then name else name @ '': '' @ msg))"
  by pat_completeness auto
termination
  by (relation "measure size")
     (auto dest: size_map_of simp: less_Suc_eq_le size_list_estimation')

text \<open>\<^verbatim>\<open>xs.join(sep)\<close>: null and undefined elements give the empty string.\<close>

definition js_join :: "string \<Rightarrow> jsval list \<Rightarrow> string" where
  "js_join sep xs =
     intercalate sep (map (\<lambda>x. if x = JUndefined \<or> x = JNull then [] else js_String x) xs)"

subsection \<open>\<^verbatim>\<open>parseInt(s, 10)\<close> and timers\<close>

definition is_space :: "char \<Rightarrow> bool" where
  "is_space c = (c = CHR '' '' \<or> (9 \<le> (of_char c :: nat) \<and> (of_char c :: nat) \<le> 13))"

definition is_digit :: "char \<Rightarrow> bool" where
  "is_digit c = (48 \<le> (of_char c :: nat) \<and> (of_char c :: nat) \<le> 57)"

definition nat_of_digits :: "string \<Rightarrow> nat" where
  "nat_of_digits ds = foldl (\<lambda>a c. 10 * a + ((of_char c :: nat) - 48)) 0 ds"

text \<open>
  \<^verbatim>\<open>parseInt(s, 10)\<close>: leading white space is skipped (ASCII white space here), one sign is
  read, then the longest run of decimal digits; no digit gives NaN, which is \<open>None\<close>.
\<close>

definition parseInt10 :: "string \<Rightarrow> int option" where
  "parseInt10 s =
     (let s1 = dropWhile is_space s;
          neg = (s1 \<noteq> [] \<and> hd s1 = CHR ''-'');
          s2 = (if s1 \<noteq> [] \<and> (hd s1 = CHR ''-'' \<or> hd s1 = CHR ''+'') then tl s1 else s1);
          ds = takeWhile is_digit s2
      in if ds = [] then None
         else Some (if neg then - int (nat_of_digits ds) else int (nat_of_digits ds)))"

text \<open>
  The delay \<^verbatim>\<open>setTimeout(f, d)\<close> really waits for: the timers of Node.js and Bun set a
  delay that is NaN, below 1 or above \<open>2^31 - 1\<close> to 1 millisecond.
\<close>

definition setTimeout_delay :: "int option \<Rightarrow> nat" where
  "setTimeout_delay d =
     (case d of
        None \<Rightarrow> 1
      | Some n \<Rightarrow> if 1 \<le> n \<and> n \<le> 2147483647 then nat n else 1)"

section \<open>The step runner (runTransaction.ts)\<close>

text \<open>
  What calling \<^verbatim>\<open>executeSkill(latestBlockhash)\<close> does, as the runner can observe it. Times
  are milliseconds after the call. \<open>Never\<close> is a promise that never settles while the
  event loop stays free; \<open>Blocks\<close> is a call or continuation that never gives the thread
  back, so that no timer callback can run. Loading a module and running its
  \<open>executeSkill\<close> write nothing to standard output themselves (the builders of this
  repository print nothing).
\<close>

datatype behaviour =
    ThrowsSync jsval
  | Resolves nat string
  | Rejects nat jsval
  | Never
  | Blocks

text \<open>
  A loaded module: \<open>executeSkill\<close> is \<open>None\<close> when \<^verbatim>\<open>typeof txModule.executeSkill\<close> is not
  \<^verbatim>\<open>'function'\<close>.
\<close>

record module =
  executeSkill :: "(string \<Rightarrow> behaviour) option"

text \<open>
  The runner's surroundings: \<^verbatim>\<open>path.resolve\<close>, the dynamic \<^verbatim>\<open>import\<close> (\<open>Inl\<close> is the thrown
  value), the stack text the runtime gives a \<^verbatim>\<open>new Error(msg)\<close>, how late the timer
  fires after its delay, and which callback runs first when the step settles in the
  very millisecond the timer fires.
\<close>

record world =
  resolve :: "string \<Rightarrow> string"
  load :: "string \<Rightarrow> jsval + module"
  stack_of :: "string \<Rightarrow> string"
  timer_lag :: nat
  timer_first_on_tie :: bool

definition new_Error :: "world \<Rightarrow> string \<Rightarrow> jsval" where
  "new_Error w msg = JObj True [(''message'', JStr msg), (''stack'', JStr (stack_of w msg))]"

text \<open>How the \<^verbatim>\<open>try\<close> block ends, and when.\<close>

datatype try_outcome =
    Returned nat string
  | Threw nat jsval
  | Stuck

definition fire_time :: "world \<Rightarrow> string \<Rightarrow> nat" where
  "fire_time w timeoutMsStr = setTimeout_delay (parseInt10 timeoutMsStr) + timer_lag w"

definition skill_first :: "world \<Rightarrow> nat \<Rightarrow> nat \<Rightarrow> bool" where
  "skill_first w t fire = (t < fire \<or> (t = fire \<and> \<not> timer_first_on_tie w))"

text \<open>
  \<^verbatim>\<open>Promise.race([executeSkill(latestBlockhash), <timer promise>])\<close>: the first to settle
  decides; the timer rejects with \<^verbatim>\<open>new Error('Transaction execution timed out.')\<close>.
\<close>

definition race :: "world \<Rightarrow> string \<Rightarrow> behaviour \<Rightarrow> try_outcome" where
  "race w timeoutMsStr b =
     (let fire = fire_time w timeoutMsStr;
          timed_out = Threw fire (new_Error w ''Transaction execution timed out.'')
      in case b of
           ThrowsSync e \<Rightarrow> Threw 0 e
         | Resolves t s \<Rightarrow> if skill_first w t fire then Returned t s else timed_out
         | Rejects t e \<Rightarrow> if skill_first w t fire then Threw t e else timed_out
         | Never \<Rightarrow> timed_out
         | Blocks \<Rightarrow> Stuck)"

definition try_block :: "world \<Rightarrow> string \<Rightarrow> string \<Rightarrow> string \<Rightarrow> try_outcome" where
  "try_block w filePath timeoutMsStr latestBlockhash =
     (case load w (resolve w filePath) of
        Inl e \<Rightarrow> Threw 0 e
      | Inr txModule \<Rightarrow>
          (case executeSkill txModule of
             None \<Rightarrow> Threw 0 (new_Error w ''executeSkill function not found in the provided module.'')
           | Some f \<Rightarrow> race w timeoutMsStr (f latestBlockhash)))"

subsection \<open>The catch block\<close>

text \<open>\<open>errorMessage\<close> and \<open>errorDetails\<close> after the four-way case analysis of the catch block.\<close>

definition error_summary :: "jsval \<Rightarrow> jsval \<times> jsval list" where
  "error_summary error =
     (if get error ''name'' = JStr ''AggregateError'' \<and> is_array (get error ''errors'') then
        (if truthy (get error ''message'') then get error ''message''
         else JStr ''Multiple errors occurred'',
         map (\<lambda>err. if truthy (get err ''message'') then get err ''message''
                     else JStr (js_String err))
             (array_items (get error ''errors'')))
      else if is_Error error then
        (get error ''message'',
         [if truthy (get error ''stack'') then get error ''stack'' else JStr (js_String error)])
      else if is_string error then (error, [error])
      else (JStr ''An unknown error occurred.'', [JStr (js_String error)]))"

text \<open>One entry of the \<open>errors\<close> list of the failure result.\<close>

definition sub_error :: "jsval \<Rightarrow> jsval" where
  "sub_error e =
     JObj False
       [(''message'', if truthy (get e ''message'') then get e ''message'' else JStr (js_String e)),
        (''line'', get e ''line''),
        (''column'', get e ''column''),
        (''file'', get e ''file'')]"

text \<open>
  \<^verbatim>\<open>error?.errors?.map(...)\<close>: undefined when \<open>errors\<close> is undefined or null, the mapped
  list when it is an array, and a TypeError (\<open>None\<close>) for any other value, which has no
  \<^verbatim>\<open>map\<close> method.
\<close>

definition map_errors :: "jsval \<Rightarrow> jsval option" where
  "map_errors error =
     (case get error ''errors'' of
        JUndefined \<Rightarrow> Some JUndefined
      | JNull \<Rightarrow> Some JUndefined
      | JArr es \<Rightarrow> Some (JArr (map sub_error es))
      | _ \<Rightarrow> None)"

definition failure_result :: "jsval \<Rightarrow> jsval \<Rightarrow> jsval" where
  "failure_result error errors =
     JObj False
       [(''success'', JBool False),
        (''error'', fst (error_summary error)),
        (''details'', JStr (js_join [CHR 0x0A] (snd (error_summary error)))),
        (''type'', if truthy (get error ''name'') then get error ''name'' else JStr ''UnknownError''),
        (''errors'', errors)]"

definition success_result :: "string \<Rightarrow> jsval" where
  "success_result serialized_tx =
     JObj False [(''success'', JBool True), (''serialized_tx'', JStr serialized_tx)]"

subsection \<open>The process\<close>

text \<open>
  What reaches standard error: a text line, the inspection of a value
  (\<^verbatim>\<open>console.error(error)\<close>), or the runtime's report of an uncaught TypeError.
\<close>

datatype diagnostic =
    Usage string
  | Inspected jsval
  | UncaughtTypeError

text \<open>
  How the process ends: \<^verbatim>\<open>process.exit(n)\<close> (pending work is abandoned), the event loop
  running empty (code 0), an unhandled rejection of \<^verbatim>\<open>runTransaction()\<close> (code 1), or
  never.
\<close>

datatype ending =
    ProcessExit nat
  | LoopDrained
  | UnhandledRejection
  | NoExit

fun exit_code :: "ending \<Rightarrow> nat option" where
  "exit_code (ProcessExit n) = Some n"
| "exit_code LoopDrained = Some 0"
| "exit_code UnhandledRejection = Some 1"
| "exit_code NoExit = None"

text \<open>
  A run of the process. Each entry of \<open>stdout\<close> is one line
  \<^verbatim>\<open>console.log(JSON.stringify(v))\<close>, kept as the value \<open>v\<close> handed to
  \<^verbatim>\<open>JSON.stringify\<close>; \<open>ended_at\<close> is the time of the end.
\<close>

record run =
  stdout :: "jsval list"
  stderr :: "diagnostic list"
  ending :: ending
  ended_at :: nat

definition positional :: "string list \<Rightarrow> nat \<Rightarrow> string" where
  "positional argv i = (if i < length argv then argv ! i else [])"

text \<open>
  \<^verbatim>\<open>runTransaction()\<close> with \<open>argv\<close> as \<^verbatim>\<open>process.argv\<close>. A missing argument and an empty one
  are both falsy. After a success the timer is still pending, so the process ends when
  it has fired.
\<close>

definition runTransaction :: "world \<Rightarrow> string list \<Rightarrow> run" where
  "runTransaction w argv =
     (let filePath = positional argv 2;
          timeoutMsStr = positional argv 3;
          latestBlockhash = positional argv 4
      in if filePath = [] \<or> timeoutMsStr = [] \<or> latestBlockhash = [] then
           \<lparr>stdout = [],
            stderr = [Usage ''Usage: bun runTransaction.ts <file> <timeoutMs> <latestBlockhash>''],
            ending = ProcessExit 1, ended_at = 0\<rparr>
         else
           (case try_block w filePath timeoutMsStr latestBlockhash of
              Returned t serialized_tx \<Rightarrow>
                \<lparr>stdout = [success_result serialized_tx], stderr = [],
                 ending = LoopDrained, ended_at = max t (fire_time w timeoutMsStr)\<rparr>
            | Threw t error \<Rightarrow>
                (case map_errors error of
                   Some errors \<Rightarrow>
                     \<lparr>stdout = [failure_result error errors], stderr = [Inspected error],
                      ending = ProcessExit 1, ended_at = t\<rparr>
                 | None \<Rightarrow>
                     \<lparr>stdout = [], stderr = [Inspected error, UncaughtTypeError],
                      ending = UnhandledRejection, ended_at = t\<rparr>)
            | Stuck \<Rightarrow> \<lparr>stdout = [], stderr = [], ending = NoExit, ended_at = 0\<rparr>))"

section \<open>The transaction builders\<close>

text \<open>
  The builders call \<^verbatim>\<open>@solana/web3.js\<close>, \<^verbatim>\<open>@solana/spl-token\<close>, the generated SDKs and
  \<^verbatim>\<open>dex_env\<close>, none of which is part of the sources: what they compute is a parameter of
  the model, and every call that can raise returns a sum.
\<close>

subsection \<open>Keys, instructions, transactions\<close>

text \<open>A \<^verbatim>\<open>PublicKey\<close> object, kept as its base58 text.\<close>

datatype pubkey = PublicKey (toBase58: string)

text \<open>
  What a builder can raise. The first four come from the builders and the Solana
  libraries: a text \<^verbatim>\<open>new PublicKey\<close> rejects, an owner off the curve, and the two errors
  the Raydium builders throw themselves (an empty program address, a missing account
  with its index). The others stand for what reading a null entry, the SDKs, the RPC
  node and the serialization raise.
\<close>

datatype build_error =
    InvalidPublicKeyInput string
  | TokenOwnerOffCurve
  | EmptyProgramAddress
  | MissingAccount nat
  | TypeError string
  | BuilderError string
  | RpcError string
  | LbPairNotFound
  | MintAccountsMissing
  | DecodeError string
  | NoProgramAddress
  | NoBinArrays string bool
  | SerializeError string

definition andThen :: "'err + 'x \<Rightarrow> ('x \<Rightarrow> 'err + 'y) \<Rightarrow> 'err + 'y" where
  "andThen r f = (case r of Inl e \<Rightarrow> Inl e | Inr a \<Rightarrow> f a)"

text \<open>One entry of the \<open>keys\<close> of a \<^verbatim>\<open>TransactionInstruction\<close>.\<close>

datatype account_meta =
  AccountMeta (meta_pubkey: pubkey) (meta_isSigner: bool) (meta_isWritable: bool)

text \<open>
  The instructions the builders add, each kept as the call that made it, with its
  arguments in the order of the call. \<open>TransactionInstruction\<close> is the one built by hand:
  program id, keys and data.
\<close>

datatype instruction =
    SetComputeUnitLimit nat
  | SetComputeUnitPrice nat
  | CreateAssociatedTokenAccountIdempotent pubkey pubkey pubkey pubkey pubkey
  | SystemTransfer pubkey pubkey nat
  | SyncNative pubkey "pubkey option"
  | CloseAccount pubkey pubkey pubkey
  | TransactionInstruction pubkey "account_meta list" "nat list"

record transaction =
  recentBlockhash :: string
  feePayer :: pubkey
  instructions :: "instruction list"

record serialize_config =
  requireAllSignatures :: bool
  verifySignatures :: bool

text \<open>
  What the Solana libraries and the process environment decide: the environment
  variable \<^verbatim>\<open>PAYER_PUBKEY\<close>, which texts \<^verbatim>\<open>new PublicKey\<close> accepts,
  \<^verbatim>\<open>getAssociatedTokenAddressSync(mint, owner, false, programId)\<close> (\<open>None\<close> when the owner is
  off the curve; the program is \<open>None\<close> when the call leaves it to its default),
  \<^verbatim>\<open>tx.serialize(config)\<close> and \<^verbatim>\<open>buffer.toString('base64')\<close>.
\<close>

record solana =
  PAYER_PUBKEY :: "string option"
  is_public_key :: "string \<Rightarrow> bool"
  getAssociatedTokenAddressSync :: "pubkey \<Rightarrow> pubkey \<Rightarrow> pubkey option \<Rightarrow> pubkey option"
  serialize :: "serialize_config \<Rightarrow> transaction \<Rightarrow> build_error + nat list"
  base64 :: "nat list \<Rightarrow> string"

definition new_PublicKey :: "solana \<Rightarrow> string \<Rightarrow> build_error + pubkey" where
  "new_PublicKey lib s =
     (if is_public_key lib s then Inr (PublicKey s) else Inl (InvalidPublicKeyInput s))"

definition NATIVE_MINT :: pubkey where
  "NATIVE_MINT = PublicKey ''So11111111111111111111111111111111111111112''"

definition USDC_MINT :: pubkey where
  "USDC_MINT = PublicKey ''EPjFWdd5AufqSSqeM2qN1xzybapC8G4wEGGkZwyTDt1v''"

text \<open>
  \<^verbatim>\<open>new PublicKey(process.env.PAYER_PUBKEY ?? 'Hykotrn...')\<close>: the default stands in only
  when the variable is not set.
\<close>

definition agentPubkey :: "solana \<Rightarrow> build_error + pubkey" where
  "agentPubkey lib =
     (case PAYER_PUBKEY lib of
        None \<Rightarrow> Inr (PublicKey ''HykotrnSrgYNACXfbNiS64zPzZGbyU94bxx9SWM1jMVR'')
      | Some s \<Rightarrow> new_PublicKey lib s)"

definition associated_token_address ::
  "solana \<Rightarrow> pubkey \<Rightarrow> pubkey \<Rightarrow> pubkey option \<Rightarrow> build_error + pubkey" where
  "associated_token_address lib mint owner program =
     (case getAssociatedTokenAddressSync lib mint owner program of
        None \<Rightarrow> Inl TokenOwnerOffCurve
      | Some ata \<Rightarrow> Inr ata)"

text \<open>
  \<^verbatim>\<open>tx.serialize({ requireAllSignatures: false, verifySignatures: false }).toString('base64')\<close>
\<close>

definition serialize_base64 :: "solana \<Rightarrow> transaction \<Rightarrow> build_error + string" where
  "serialize_base64 lib tx =
     andThen (serialize lib \<lparr>requireAllSignatures = False, verifySignatures = False\<rparr> tx)
       (\<lambda>buffer. Inr (base64 lib buffer))"

subsection \<open>The Raydium builders (tx_02_raydium_swap.ts, tx_05_raydium_swap.ts)\<close>

text \<open>The constants \<^verbatim>\<open>RAYDIUM\<close> of \<^verbatim>\<open>dex_env\<close>, as texts.\<close>

record raydium_env =
  authority :: string
  ammConfig :: string
  poolState :: string
  token0Mint :: string
  token1Mint :: string
  token0Vault :: string
  token1Vault :: string
  token0Program :: string
  token1Program :: string
  observationKey :: string

text \<open>
  An entry of \<^verbatim>\<open>rawSwapIx.accounts\<close> (the list holds \<open>None\<close> for a null or undefined
  entry): \<open>pubkey\<close> is \<open>None\<close> when the entry has none, and the two flags are the
  \<^verbatim>\<open>Boolean(...)\<close> of what the SDK reports.
\<close>

record raw_meta =
  pubkey :: "string option"
  isSigner :: bool
  isWritable :: bool

text \<open>
  What \<^verbatim>\<open>getSwapBaseInputInstruction\<close> returns; \<open>programAddress\<close> is the empty text when it is
  falsy.
\<close>

record raw_instruction =
  programAddress :: string
  accounts :: "raw_meta option list"
  data :: "nat list"

text \<open>The argument of \<^verbatim>\<open>getSwapBaseInputInstruction\<close>.\<close>

record swap_input =
  in_payer :: pubkey
  in_authority :: pubkey
  in_ammConfig :: pubkey
  in_poolState :: pubkey
  in_inputTokenAccount :: pubkey
  in_outputTokenAccount :: pubkey
  in_inputVault :: pubkey
  in_outputVault :: pubkey
  in_inputTokenProgram :: pubkey
  in_outputTokenProgram :: pubkey
  in_inputTokenMint :: pubkey
  in_outputTokenMint :: pubkey
  in_observationState :: pubkey
  in_amountIn :: nat
  in_minimumAmountOut :: nat

record raydium =
  RAYDIUM :: raydium_env
  getSwapBaseInputInstruction :: "swap_input \<Rightarrow> build_error + raw_instruction"

text \<open>\<^verbatim>\<open>meta?.pubkey\<close>, the empty text standing for a missing entry or key.\<close>

definition key_text :: "raw_meta option \<Rightarrow> string" where
  "key_text meta =
     (case meta of
        None \<Rightarrow> []
      | Some m \<Rightarrow> (case pubkey m of None \<Rightarrow> [] | Some s \<Rightarrow> s))"

definition has_pubkey :: "raw_meta option \<Rightarrow> bool" where
  "has_pubkey meta = (key_text meta \<noteq> [])"

text \<open>
  The part both builders share: an entry becomes an account of the swap instruction, a
  signer and writable when its key is the agent's. Reading \<^verbatim>\<open>meta.pubkey\<close> of a null
  entry is a TypeError.
\<close>

definition swap_key ::
  "solana \<Rightarrow> pubkey \<Rightarrow> raw_meta option \<Rightarrow> build_error + account_meta" where
  "swap_key lib agent meta =
     (case meta of
        None \<Rightarrow> Inl (TypeError ''meta.pubkey'')
      | Some m \<Rightarrow>
          andThen (new_PublicKey lib (key_text meta))
            (\<lambda>pk. let isAgent = (pk = agent)
                  in Inr (AccountMeta pk (if isAgent then True else isSigner m)
                            (if isAgent then True else isWritable m))))"

text \<open>
  Step 2: \<^verbatim>\<open>rawSwapIx.accounts.map((meta, index) => ...)\<close>, from \<open>index\<close> on. An entry
  without a key is the payer at index 0 and an error anywhere else.
\<close>

fun swapKeys_02 ::
  "solana \<Rightarrow> pubkey \<Rightarrow> nat \<Rightarrow> raw_meta option list \<Rightarrow> build_error + account_meta list" where
  "swapKeys_02 lib agent index [] = Inr []"
| "swapKeys_02 lib agent index (meta # rest) =
     andThen
       (if \<not> has_pubkey meta then
          (if index = 0 then Inr (AccountMeta agent True True)
           else Inl (MissingAccount index))
        else swap_key lib agent meta)
       (\<lambda>k. andThen (swapKeys_02 lib agent (Suc index) rest) (\<lambda>ks. Inr (k # ks)))"

text \<open>Step 5: \<^verbatim>\<open>rawSwapIx.accounts.filter(meta => meta && meta.pubkey).map(...)\<close>.\<close>

fun map_swap_key ::
  "solana \<Rightarrow> pubkey \<Rightarrow> raw_meta option list \<Rightarrow> build_error + account_meta list" where
  "map_swap_key lib agent [] = Inr []"
| "map_swap_key lib agent (meta # rest) =
     andThen (swap_key lib agent meta)
       (\<lambda>k. andThen (map_swap_key lib agent rest) (\<lambda>ks. Inr (k # ks)))"

definition swapKeys_05 ::
  "solana \<Rightarrow> pubkey \<Rightarrow> raw_meta option list \<Rightarrow> build_error + account_meta list" where
  "swapKeys_05 lib agent metas = map_swap_key lib agent (filter has_pubkey metas)"

text \<open>
  The keys both builders derive from \<^verbatim>\<open>RAYDIUM\<close> and the input mint, in the order the
  source evaluates them.
\<close>

record pool_keys =
  inputVault :: pubkey
  outputVault :: pubkey
  inputTokenProgram :: pubkey
  outputTokenProgram :: pubkey
  inputTokenMint :: pubkey
  outputTokenMint :: pubkey
  inAta :: pubkey
  outAta :: pubkey

definition derive_pool_keys ::
  "solana \<Rightarrow> raydium_env \<Rightarrow> pubkey \<Rightarrow> pubkey \<Rightarrow> build_error + pool_keys" where
  "derive_pool_keys lib R INPUT_MINT agent =
     (let inputIsToken0 = (token0Mint R = toBase58 INPUT_MINT) in
      andThen (new_PublicKey lib (if inputIsToken0 then token0Vault R else token1Vault R)) (\<lambda>iv.
      andThen (new_PublicKey lib (if inputIsToken0 then token1Vault R else token0Vault R)) (\<lambda>ov.
      andThen (new_PublicKey lib (if inputIsToken0 then token0Program R else token1Program R)) (\<lambda>ip.
      andThen (new_PublicKey lib (if inputIsToken0 then token1Program R else token0Program R)) (\<lambda>op.
      andThen (new_PublicKey lib (if inputIsToken0 then token0Mint R else token1Mint R)) (\<lambda>im.
      andThen (new_PublicKey lib (if inputIsToken0 then token1Mint R else token0Mint R)) (\<lambda>om.
      andThen (associated_token_address lib im agent None) (\<lambda>ia.
      andThen (associated_token_address lib om agent None) (\<lambda>oa.
      Inr \<lparr>inputVault = iv, outputVault = ov, inputTokenProgram = ip,
           outputTokenProgram = op, inputTokenMint = im, outputTokenMint = om,
           inAta = ia, outAta = oa\<rparr>)))))))))"

text \<open>The call of \<^verbatim>\<open>getSwapBaseInputInstruction\<close> and the check of its program address.\<close>

definition raw_swap ::
  "solana \<Rightarrow> raydium \<Rightarrow> pubkey \<Rightarrow> pool_keys \<Rightarrow> nat \<Rightarrow> build_error + raw_instruction" where
  "raw_swap lib sdk agent k AMOUNT =
     andThen (new_PublicKey lib (authority (RAYDIUM sdk))) (\<lambda>au.
     andThen (new_PublicKey lib (ammConfig (RAYDIUM sdk))) (\<lambda>ac.
     andThen (new_PublicKey lib (poolState (RAYDIUM sdk))) (\<lambda>ps.
     andThen (new_PublicKey lib (observationKey (RAYDIUM sdk))) (\<lambda>ob.
     andThen (getSwapBaseInputInstruction sdk
                \<lparr>in_payer = agent, in_authority = au, in_ammConfig = ac, in_poolState = ps,
                 in_inputTokenAccount = inAta k, in_outputTokenAccount = outAta k,
                 in_inputVault = inputVault k, in_outputVault = outputVault k,
                 in_inputTokenProgram = inputTokenProgram k,
                 in_outputTokenProgram = outputTokenProgram k,
                 in_inputTokenMint = inputTokenMint k, in_outputTokenMint = outputTokenMint k,
                 in_observationState = ob, in_amountIn = AMOUNT, in_minimumAmountOut = 0\<rparr>)
       (\<lambda>rawSwapIx.
          if programAddress rawSwapIx = [] then Inl EmptyProgramAddress
          else Inr rawSwapIx)))))"

definition create_atas :: "pubkey \<Rightarrow> pool_keys \<Rightarrow> instruction list" where
  "create_atas agent k =
     [CreateAssociatedTokenAccountIdempotent agent (inAta k) agent (inputTokenMint k)
        (inputTokenProgram k),
      CreateAssociatedTokenAccountIdempotent agent (outAta k) agent (outputTokenMint k)
        (outputTokenProgram k)]"

text \<open>
  The transaction of step 2 (5 USDC into wSOL): the output account is wrapped and closed
  only when the output mint is the native mint.
\<close>

definition build_02 :: "solana \<Rightarrow> raydium \<Rightarrow> string \<Rightarrow> build_error + transaction" where
  "build_02 lib sdk blockhash =
     andThen (agentPubkey lib) (\<lambda>agent.
     andThen (derive_pool_keys lib (RAYDIUM sdk) USDC_MINT agent) (\<lambda>k.
     andThen (raw_swap lib sdk agent k 5000000) (\<lambda>rawSwapIx.
     andThen (swapKeys_02 lib agent 0 (accounts rawSwapIx)) (\<lambda>swapKeys.
     andThen (new_PublicKey lib (programAddress rawSwapIx)) (\<lambda>programId.
     Inr \<lparr>recentBlockhash = blockhash, feePayer = agent,
          instructions =
            [SetComputeUnitLimit 500000, SetComputeUnitPrice 200000]
            @ create_atas agent k
            @ (if outputTokenMint k = NATIVE_MINT
               then [SystemTransfer agent (outAta k) 1, SyncNative (outAta k) None] else [])
            @ [TransactionInstruction programId swapKeys (data rawSwapIx)]
            @ (if outputTokenMint k = NATIVE_MINT
               then [CloseAccount (outAta k) agent agent] else [])\<rparr>)))))"

definition executeSkill_02 :: "solana \<Rightarrow> raydium \<Rightarrow> string \<Rightarrow> build_error + string" where
  "executeSkill_02 lib sdk blockhash =
     andThen (build_02 lib sdk blockhash) (serialize_base64 lib)"

text \<open>The transaction of step 5 (0.05 SOL into USDC): the input account is always wrapped.\<close>

definition build_05 :: "solana \<Rightarrow> raydium \<Rightarrow> string \<Rightarrow> build_error + transaction" where
  "build_05 lib sdk blockhash =
     andThen (agentPubkey lib) (\<lambda>agent.
     andThen (derive_pool_keys lib (RAYDIUM sdk) NATIVE_MINT agent) (\<lambda>k.
     andThen (raw_swap lib sdk agent k 50000000) (\<lambda>rawSwapIx.
     andThen (swapKeys_05 lib agent (accounts rawSwapIx)) (\<lambda>swapKeys.
     andThen (new_PublicKey lib (programAddress rawSwapIx)) (\<lambda>programId.
     Inr \<lparr>recentBlockhash = blockhash, feePayer = agent,
          instructions =
            [SetComputeUnitLimit 600000, SetComputeUnitPrice 150000]
            @ create_atas agent k
            @ [SystemTransfer agent (inAta k) 50000000, SyncNative (inAta k) None]
            @ [TransactionInstruction programId swapKeys (data rawSwapIx)]
            @ [CloseAccount (inAta k) agent agent]\<rparr>)))))"

definition executeSkill_05 :: "solana \<Rightarrow> raydium \<Rightarrow> string \<Rightarrow> build_error + string" where
  "executeSkill_05 lib sdk blockhash =
     andThen (build_05 lib sdk blockhash) (serialize_base64 lib)"

subsection \<open>The Meteora builder\<close>

text \<open>The constants \<^verbatim>\<open>METEORA\<close> of \<^verbatim>\<open>dex_env\<close>; \<open>binArrays\<close> is \<open>None\<close> when it is no array.\<close>

record meteora_env =
  programId :: string
  lbPair :: string
  memoProgram :: string
  binArrays :: "string list option"

record account_info =
  info_data :: "nat list"
  info_owner :: pubkey

text \<open>The fields the builder reads of a decoded \<^verbatim>\<open>LbPair\<close> account.\<close>

record lb_pair =
  tokenXMint :: string
  tokenYMint :: string
  reserveX :: string
  reserveY :: string
  lb_oracle :: string

datatype seed = SeedText string | SeedKey pubkey

datatype accounts_type = TransferHookX | TransferHookY

text \<open>
  What the RPC node and the DLMM SDK decide: \<^verbatim>\<open>connection.getAccountInfo\<close> (it can reject;
  \<open>None\<close> is an account that does not exist), \<^verbatim>\<open>getLbPairDecoder().decode\<close>,
  \<^verbatim>\<open>PublicKey.findProgramAddressSync\<close> and \<^verbatim>\<open>getSwap2InstructionDataEncoder().encode\<close>.
\<close>

record meteora =
  METEORA :: meteora_env
  getAccountInfo :: "pubkey \<Rightarrow> build_error + account_info option"
  decode_lbPair :: "nat list \<Rightarrow> build_error + lb_pair"
  findProgramAddressSync :: "seed list \<Rightarrow> pubkey \<Rightarrow> build_error + pubkey"
  encode_swap2 :: "nat \<Rightarrow> nat \<Rightarrow> (accounts_type \<times> nat) list \<Rightarrow> nat list"

text \<open>\<^verbatim>\<open>binArrayPubkeys.slice(0, 4).map(pk => ({pubkey: new PublicKey(pk), ...}))\<close>\<close>

fun remaining_accounts :: "solana \<Rightarrow> string list \<Rightarrow> build_error + account_meta list" where
  "remaining_accounts lib [] = Inr []"
| "remaining_accounts lib (pk # pks) =
     andThen (new_PublicKey lib pk)
       (\<lambda>k. andThen (remaining_accounts lib pks) (\<lambda>ks. Inr (AccountMeta k False True # ks)))"

text \<open>
  The pool as the builder reads it from the chain: the decoded pair's keys and the
  owners of the two mints. The two mint lookups of \<^verbatim>\<open>Promise.all\<close> are taken in order.
\<close>

record pool_state =
  ps_tokenXMint :: pubkey
  ps_tokenYMint :: pubkey
  ps_reserveX :: pubkey
  ps_reserveY :: pubkey
  ps_oracle :: pubkey
  ps_tokenXProgram :: pubkey
  ps_tokenYProgram :: pubkey

definition fetch_pool :: "solana \<Rightarrow> meteora \<Rightarrow> pubkey \<Rightarrow> build_error + pool_state" where
  "fetch_pool lib sdk lbPairKey =
     andThen (getAccountInfo sdk lbPairKey) (\<lambda>lbPairInfo.
     case lbPairInfo of
       None \<Rightarrow> Inl LbPairNotFound
     | Some info \<Rightarrow>
         andThen (decode_lbPair sdk (info_data info)) (\<lambda>lb.
         andThen (new_PublicKey lib (tokenXMint lb)) (\<lambda>xm.
         andThen (new_PublicKey lib (tokenYMint lb)) (\<lambda>ym.
         andThen (new_PublicKey lib (reserveX lb)) (\<lambda>rx.
         andThen (new_PublicKey lib (reserveY lb)) (\<lambda>ry.
         andThen (new_PublicKey lib (lb_oracle lb)) (\<lambda>orc.
         andThen (getAccountInfo sdk xm) (\<lambda>mintXInfo.
         andThen (getAccountInfo sdk ym) (\<lambda>mintYInfo.
         case (mintXInfo, mintYInfo) of
           (Some xi, Some yi) \<Rightarrow>
             Inr \<lparr>ps_tokenXMint = xm, ps_tokenYMint = ym, ps_reserveX = rx, ps_reserveY = ry,
                  ps_oracle = orc, ps_tokenXProgram = info_owner xi,
                  ps_tokenYProgram = info_owner yi\<rparr>
         | _ \<Rightarrow> Inl MintAccountsMissing)))))))))"

definition build_meteora :: "solana \<Rightarrow> meteora \<Rightarrow> string \<Rightarrow> build_error + transaction" where
  "build_meteora lib sdk blockhash =
     andThen (agentPubkey lib) (\<lambda>agent.
     andThen (new_PublicKey lib (programId (METEORA sdk))) (\<lambda>program.
     andThen (new_PublicKey lib (lbPair (METEORA sdk))) (\<lambda>pair.
     andThen (fetch_pool lib sdk pair) (\<lambda>p.
     let swapYtoX = (ps_tokenXMint p = NATIVE_MINT);
         inMint = (if swapYtoX then ps_tokenYMint p else ps_tokenXMint p);
         outMint = (if swapYtoX then ps_tokenXMint p else ps_tokenYMint p);
         amountIn = 5000000;
         inProgramId = (if inMint = ps_tokenXMint p then ps_tokenXProgram p
                        else ps_tokenYProgram p);
         outProgramId = (if outMint = ps_tokenXMint p then ps_tokenXProgram p
                         else ps_tokenYProgram p)
     in
     andThen (associated_token_address lib inMint agent (Some inProgramId)) (\<lambda>inAta.
     andThen (associated_token_address lib outMint agent (Some outProgramId)) (\<lambda>outAta.
     andThen (findProgramAddressSync sdk [SeedText ''__event_authority''] program)
       (\<lambda>eventAuthority.
     andThen (findProgramAddressSync sdk [SeedText ''bitmap'', SeedKey pair] program)
       (\<lambda>bitmapExt.
     andThen (new_PublicKey lib (memoProgram (METEORA sdk))) (\<lambda>memo.
     andThen (remaining_accounts lib
                (take 4 (case binArrays (METEORA sdk) of None \<Rightarrow> [] | Some pks \<Rightarrow> pks)))
       (\<lambda>remaining.
     Inr \<lparr>recentBlockhash = blockhash, feePayer = agent,
          instructions =
            [SetComputeUnitLimit 800000, SetComputeUnitPrice 250000,
             CreateAssociatedTokenAccountIdempotent agent inAta agent inMint inProgramId,
             CreateAssociatedTokenAccountIdempotent agent outAta agent outMint outProgramId]
            @ (if inMint = NATIVE_MINT
               then [SystemTransfer agent inAta amountIn, SyncNative inAta (Some inProgramId)]
               else [])
            @ [TransactionInstruction program
                 ([AccountMeta pair False True,
                   AccountMeta bitmapExt False False,
                   AccountMeta (ps_reserveX p) False True,
                   AccountMeta (ps_reserveY p) False True,
                   AccountMeta inAta False True,
                   AccountMeta outAta False True,
                   AccountMeta (ps_tokenXMint p) False False,
                   AccountMeta (ps_tokenYMint p) False False,
                   AccountMeta (ps_oracle p) False True,
                   AccountMeta inAta False True,
                   AccountMeta agent True False,
                   AccountMeta (ps_tokenXProgram p) False False,
                   AccountMeta (ps_tokenYProgram p) False False,
                   AccountMeta memo False False,
                   AccountMeta eventAuthority False False,
                   AccountMeta program False False]
                  @ remaining)
                 (encode_swap2 sdk amountIn 0 [(TransferHookX, 0), (TransferHookY, 0)])]
            @ (if inMint = NATIVE_MINT then [CloseAccount inAta agent agent] else [])\<rparr>
     ))))))))))"

definition executeSkill_meteora :: "solana \<Rightarrow> meteora \<Rightarrow> string \<Rightarrow> build_error + string" where
  "executeSkill_meteora lib sdk blockhash =
     andThen (build_meteora lib sdk blockhash) (serialize_base64 lib)"

subsection \<open>What the claims say of the swap accounts\<close>

text \<open>
  The account the claims expect for an entry that has a key: the entry's key, a signer
  and writable when the key is the agent's, with the SDK's flags otherwise.
\<close>

definition expected_key :: "pubkey \<Rightarrow> raw_meta option \<Rightarrow> account_meta" where
  "expected_key agent meta =
     AccountMeta (PublicKey (key_text meta))
       (PublicKey (key_text meta) = agent \<or> (case meta of None \<Rightarrow> False | Some m \<Rightarrow> isSigner m))
       (PublicKey (key_text meta) = agent \<or> (case meta of None \<Rightarrow> False | Some m \<Rightarrow> isWritable m))"

text \<open>The SDK as it would be if its builder never returned an entry without a key.\<close>

definition without_keyless :: "raydium \<Rightarrow> raydium" where
  "without_keyless sdk =
     sdk\<lparr>getSwapBaseInputInstruction :=
           (\<lambda>input. andThen (getSwapBaseInputInstruction sdk input)
                      (\<lambda>raw. Inr (raw\<lparr>accounts := filter has_pubkey (accounts raw)\<rparr>)))\<rparr>"

text \<open>
  The transaction the claims expect of step 5 for the agent key, the pool keys and the
  instruction \<open>raw\<close> the SDK returned: the compute budget, the two token accounts, the
  wrapping of SOL, one swap instruction whose accounts are exactly the entries of \<open>raw\<close>
  that have a key, in their order, and the closing of the wrapped account.
\<close>

definition step5_transaction ::
  "string \<Rightarrow> pubkey \<Rightarrow> pool_keys \<Rightarrow> raw_instruction \<Rightarrow> transaction" where
  "step5_transaction blockhash agent k raw =
     \<lparr>recentBlockhash = blockhash, feePayer = agent,
      instructions =
        [SetComputeUnitLimit 600000, SetComputeUnitPrice 150000,
         CreateAssociatedTokenAccountIdempotent agent (inAta k) agent (inputTokenMint k)
           (inputTokenProgram k),
         CreateAssociatedTokenAccountIdempotent agent (outAta k) agent (outputTokenMint k)
           (outputTokenProgram k),
         SystemTransfer agent (inAta k) 50000000,
         SyncNative (inAta k) None,
         TransactionInstruction (PublicKey (programAddress raw))
           (map (expected_key agent) (filter has_pubkey (accounts raw))) (data raw),
         CloseAccount (inAta k) agent agent]\<rparr>"

section \<open>Pool discovery\<close>

text \<open>
  The Meteora part of \<^verbatim>\<open>main()\<close> in the discovery script: the loop over the candidate
  pools with its retries. Console output is left out.
\<close>

definition MAX_RETRIES :: nat where
  "MAX_RETRIES = 10"

definition RETRY_DELAY_MS :: nat where
  "RETRY_DELAY_MS = 1000"

text \<open>
  A pool object of the DLMM SDK: the keys the script reads, and
  \<^verbatim>\<open>getBinArrayForSwap(swapYtoX, 6)\<close>, whose result is kept as the list of
  \<^verbatim>\<open>entry?.publicKey?.toBase58?.()\<close> (\<open>None\<close> for undefined).
\<close>

record dlmm_pool =
  pool_programId :: pubkey
  tokenX_publicKey :: pubkey
  tokenY_publicKey :: pubkey
  tokenX_reserve :: pubkey
  tokenY_reserve :: pubkey
  lbPair_oracle :: pubkey
  getBinArrayForSwap :: "bool \<Rightarrow> build_error + string option list"

text \<open>
  \<^verbatim>\<open>meteoraSdk.DLMM.create(connection, pk)\<close> and the SDK's memo program. The chain can
  answer differently from one call to the next, so \<open>create\<close> also takes the number of
  calls made before. Every call of the SDK settles: it returns or it raises.
\<close>

record dlmm_sdk =
  dlmm_create :: "nat \<Rightarrow> pubkey \<Rightarrow> build_error + dlmm_pool"
  memoProgramId :: string

text \<open>\<^verbatim>\<open>result.meteora\<close>\<close>

record meteora_vars =
  v_programId :: string
  v_lbPair :: string
  v_tokenXMint :: string
  v_tokenYMint :: string
  v_reserveX :: string
  v_reserveY :: string
  v_oracle :: string
  v_memoProgram :: string
  v_binArrays :: "string list"

text \<open>\<^verbatim>\<open>Array.from(new Set(xs))\<close>: the first occurrence of each element, in order.\<close>

definition from_Set :: "string list \<Rightarrow> string list" where
  "from_Set xs = foldl (\<lambda>seen x. if x \<in> set seen then seen else seen @ [x]) [] xs"

text \<open>The body of the \<^verbatim>\<open>try\<close> block: one attempt on the pool \<open>pk\<close>.\<close>

definition attempt :: "dlmm_sdk \<Rightarrow> nat \<Rightarrow> pubkey \<Rightarrow> build_error + meteora_vars" where
  "attempt sdk calls pk =
     andThen (dlmm_create sdk calls pk) (\<lambda>pool.
       let swapYtoX =
             (if tokenY_publicKey pool = NATIVE_MINT then True
              else if tokenX_publicKey pool = NATIVE_MINT then False
              else True)
       in andThen (getBinArrayForSwap pool swapYtoX) (\<lambda>binArrays.
            let binArrayPubkeys =
                  from_Set (concat (map (\<lambda>x. case x of None \<Rightarrow> [] | Some s \<Rightarrow>
                                            if s = [] then [] else [s]) binArrays))
            in if binArrayPubkeys = [] then Inl (NoBinArrays (toBase58 pk) swapYtoX)
               else Inr \<lparr>v_programId = toBase58 (pool_programId pool),
                         v_lbPair = toBase58 pk,
                         v_tokenXMint = toBase58 (tokenX_publicKey pool),
                         v_tokenYMint = toBase58 (tokenY_publicKey pool),
                         v_reserveX = toBase58 (tokenX_reserve pool),
                         v_reserveY = toBase58 (tokenY_reserve pool),
                         v_oracle = toBase58 (lbPair_oracle pool),
                         v_memoProgram = memoProgramId sdk,
                         v_binArrays = binArrayPubkeys\<rparr>))"

text \<open>
  What the loop does that a caller can see: an attempt on a candidate (with the value of
  \<open>retryCount\<close> when it starts, and whether it succeeded) and a sleep.
\<close>

datatype event =
    Attempt string nat bool
  | Sleep nat

record progress =
  lbPairFound :: "pubkey option"
  result_meteora :: "meteora_vars option"
  lastError :: "build_error option"
  rejected :: "build_error option"
  calls :: nat
  timeline :: "event list"

text \<open>
  The \<^verbatim>\<open>while (retryCount < MAX_RETRIES && !lbPairFound)\<close> loop for one candidate, entered
  with nothing found yet; a success leaves it at once (\<^verbatim>\<open>break\<close>). The result holds the
  events from here on.
\<close>

function retry_loop ::
  "dlmm_sdk \<Rightarrow> string \<Rightarrow> pubkey \<Rightarrow> nat \<Rightarrow> nat \<Rightarrow> build_error option \<Rightarrow> progress" where
  "retry_loop sdk cand pk retryCount n lastErr =
     (if retryCount < MAX_RETRIES then
        (case attempt sdk n pk of
           Inr vars \<Rightarrow>
             \<lparr>lbPairFound = Some pk, result_meteora = Some vars, lastError = lastErr,
              rejected = None, calls = Suc n, timeline = [Attempt cand retryCount True]\<rparr>
         | Inl inner \<Rightarrow>
             (let r = retry_loop sdk cand pk (Suc retryCount) (Suc n) (Some inner)
              in r\<lparr>timeline :=
                     Attempt cand retryCount False
                     # (if Suc retryCount < MAX_RETRIES then [Sleep RETRY_DELAY_MS] else [])
                     @ timeline r\<rparr>))
      else
        \<lparr>lbPairFound = None, result_meteora = None, lastError = lastErr,
         rejected = None, calls = n, timeline = []\<rparr>)"
  by pat_completeness auto
termination
  by (relation "measure (\<lambda>(sdk, cand, pk, retryCount, n, lastErr). MAX_RETRIES - retryCount)") auto

declare retry_loop.simps [simp del]

text \<open>
  \<^verbatim>\<open>for (const cand of meteoraLbPairCandidates)\<close>: \<^verbatim>\<open>new PublicKey(cand)\<close> stands outside the
  \<^verbatim>\<open>try\<close>, so a candidate that is no key makes \<^verbatim>\<open>main()\<close> reject.
\<close>

fun candidates_loop ::
  "solana \<Rightarrow> dlmm_sdk \<Rightarrow> string list \<Rightarrow> nat \<Rightarrow> build_error option \<Rightarrow> progress" where
  "candidates_loop lib sdk [] n lastErr =
     \<lparr>lbPairFound = None, result_meteora = None, lastError = lastErr,
      rejected = None, calls = n, timeline = []\<rparr>"
| "candidates_loop lib sdk (cand # rest) n lastErr =
     (case new_PublicKey lib cand of
        Inl e \<Rightarrow>
          \<lparr>lbPairFound = None, result_meteora = None, lastError = lastErr,
           rejected = Some e, calls = n, timeline = []\<rparr>
      | Inr pk \<Rightarrow>
          (let r = retry_loop sdk cand pk 0 n lastErr
           in if lbPairFound r \<noteq> None then r
              else (let r' = candidates_loop lib sdk rest (calls r) (lastError r)
                    in r'\<lparr>timeline := timeline r @ timeline r'\<rparr>)))"

text \<open>
  The candidates are the pool of \<^verbatim>\<open>--meteora-lbpair\<close>, when given, and the built-in one.
\<close>

definition meteoraLbPairCandidates :: "string option \<Rightarrow> string list" where
  "meteoraLbPairCandidates cliMeteora =
     (case cliMeteora of None \<Rightarrow> [] | Some c \<Rightarrow> if c = [] then [] else [c])
     @ [''HTvjzsfX3yU6BUodCjZ5vZkUrAxMDTrBs3CJaq43ashR'']"

definition discover_meteora :: "solana \<Rightarrow> dlmm_sdk \<Rightarrow> string list \<Rightarrow> progress" where
  "discover_meteora lib sdk cands = candidates_loop lib sdk cands 0 None"

subsection \<open>What the claim says of the timeline\<close>

text \<open>
  The shape the claim gives a timeline. It does not start with a sleep. A failed attempt
  that is not the candidate's last is followed by a sleep of \<open>RETRY_DELAY_MS\<close> and then
  the next attempt on the same candidate; the last failed attempt on a candidate (the
  one numbered \<open>MAX_RETRIES - 1\<close>) is followed at once by the first attempt on another
  candidate, or by nothing; a successful attempt is followed by nothing.
\<close>

fun paced :: "event list \<Rightarrow> bool" where
  "paced [] = True"
| "paced (Sleep d # rest) = False"
| "paced [Attempt c n ok] = (ok \<or> Suc n = MAX_RETRIES)"
| "paced (Attempt c n ok # Sleep d # rest) =
     (\<not> ok \<and> Suc n < MAX_RETRIES \<and> d = RETRY_DELAY_MS
      \<and> (case rest of Attempt c' n' ok' # later \<Rightarrow> c' = c \<and> n' = Suc n | _ \<Rightarrow> False)
      \<and> paced rest)"
| "paced (Attempt c n ok # Attempt c' n' ok' # rest) =
     (\<not> ok \<and> Suc n = MAX_RETRIES \<and> n' = 0 \<and> paced (Attempt c' n' ok' # rest))"

fun is_attempt_on :: "string \<Rightarrow> event \<Rightarrow> bool" where
  "is_attempt_on c (Attempt c' n ok) = (c' = c)"
| "is_attempt_on c (Sleep d) = False"

section \<open>The replay driver\<close>

text \<open>
  Modelled from the spec: the replay driver (\<^verbatim>\<open>replay.py\<close>) is not among the sources, so
  its state machine is taken from the specification's component design: the states
  \<open>Pending(i)\<close>, \<open>Building(i)\<close>, \<open>Submitting(i)\<close>, \<open>Done(i, Outcome)\<close>, \<open>Halted\<close> and
  \<open>Completed\<close>, the five outcome classifications, and the transitions 1 to 7.
\<close>

datatype classification = BuildFailed | SubmitFailed | Confirmed | CrashedRemote | TimedOut

text \<open>
  Modelled from the spec: what the Step Runner returns for a step (a serialized
  transaction, a build failure or a timeout) and what the Chain Gateway reports for a
  submission (confirmed, a clean rejection, or evidence that the remote process faulted).
\<close>

datatype build_result = Built string | BuildRaised | BuildTimedOut

datatype submit_result = Accepted | Rejected | Crashed

datatype driver_state =
    Pending nat
  | Building nat
  | Submitting nat string
  | Done nat classification
  | Halted
  | Completed

text \<open>
  Modelled from the spec: a run's surroundings are the number of steps, the Step
  Runner's result for each step and the gateway's answer to each submission.
\<close>

record replay =
  step_count :: nat
  run_step :: "nat \<Rightarrow> build_result"
  submit_step :: "nat \<Rightarrow> string \<Rightarrow> submit_result"

fun classify :: "submit_result \<Rightarrow> classification" where
  "classify Accepted = Confirmed"
| "classify Rejected = SubmitFailed"
| "classify Crashed = CrashedRemote"

text \<open>
  Modelled from the spec: the transitions. \<open>Pending(i)\<close> starts the build of step \<open>i\<close>, or
  completes the run after the last step; a failed or timed-out build is done and the
  sequence proceeds; a successful build is submitted; a completed round trip is done
  with the gateway's classification; \<open>Done(i, CrashedRemote)\<close> halts; any other
  \<open>Done(i, _)\<close> goes on to \<open>Pending(i + 1)\<close>. \<open>Halted\<close> and \<open>Completed\<close> are terminal.
\<close>

fun driver_step :: "replay \<Rightarrow> driver_state \<Rightarrow> driver_state" where
  "driver_step env (Pending i) = (if i < step_count env then Building i else Completed)"
| "driver_step env (Building i) =
     (case run_step env i of
        Built tx \<Rightarrow> Submitting i tx
      | BuildRaised \<Rightarrow> Done i BuildFailed
      | BuildTimedOut \<Rightarrow> Done i TimedOut)"
| "driver_step env (Submitting i tx) = Done i (classify (submit_step env i tx))"
| "driver_step env (Done i c) = (if c = CrashedRemote then Halted else Pending (Suc i))"
| "driver_step env Halted = Halted"
| "driver_step env Completed = Completed"

text \<open>Modelled from the spec: the driver's state after \<open>k\<close> transitions from \<open>Pending(0)\<close>.\<close>

definition driver_at :: "replay \<Rightarrow> nat \<Rightarrow> driver_state" where
  "driver_at env k = (driver_step env ^^ k) (Pending 0)"

text \<open>The step a state is working on; the terminal states work on none.\<close>

fun attempts_step :: "driver_state \<Rightarrow> nat option" where
  "attempts_step (Pending i) = Some i"
| "attempts_step (Building i) = Some i"
| "attempts_step (Submitting i tx) = Some i"
| "attempts_step (Done i c) = Some i"
| "attempts_step Halted = None"
| "attempts_step Completed = None"


section \<open>Sample inputs\<close>

text \<open>
  A world in which every path loads a module whose \<open>executeSkill\<close> behaves as \<open>b\<close>, with a
  punctual timer, and a command line with the three positional arguments.
\<close>

definition world_with :: "behaviour \<Rightarrow> world" where
  "world_with b =
     \<lparr>resolve = (\<lambda>p. ''/work/'' @ p),
      load = (\<lambda>p. Inr \<lparr>executeSkill = Some (\<lambda>blockhash. b)\<rparr>),
      stack_of = (\<lambda>msg. ''Error: '' @ msg),
      timer_lag = 0,
      timer_first_on_tie = True\<rparr>"

definition argv_with :: "string \<Rightarrow> string list" where
  "argv_with timeoutMsStr =
     [''bun'', ''runTransaction.ts'', ''tx.ts'', timeoutMsStr, ''blockhash'']"

text \<open>An aggregate of two sub-errors, as a failed compilation of a module raises it.\<close>

definition sample_aggregate :: jsval where
  "sample_aggregate =
     JObj True
       [(''name'', JStr ''AggregateError''),
        (''message'', JStr ''2 errors building tx.ts''),
        (''errors'',
           JArr [JObj False [(''message'', JStr ''Unexpected token''), (''line'', JNum 3),
                             (''column'', JNum 7), (''file'', JStr ''tx.ts'')],
                 JStr ''second''])]"

text \<open>
  Libraries for the builders: every non-empty text is a key, every associated token
  address exists, serialization succeeds. The SDK returns the account list it is given;
  its pool has the native mint as token 0 and USDC as token 1.
\<close>

definition sample_solana :: solana where
  "sample_solana =
     \<lparr>PAYER_PUBKEY = None,
      is_public_key = (\<lambda>s. s \<noteq> []),
      getAssociatedTokenAddressSync = (\<lambda>mint owner program. Some (PublicKey (''ata-'' @ toBase58 mint))),
      serialize = (\<lambda>config tx. Inr (map length (recentBlockhash tx # map toBase58 [feePayer tx]))),
      base64 = map (\<lambda>n. digit_char (n mod 10))\<rparr>"

definition sample_raydium :: "raw_meta option list \<Rightarrow> raydium" where
  "sample_raydium metas =
     \<lparr>RAYDIUM =
        \<lparr>authority = ''authority'', ammConfig = ''ammConfig'', poolState = ''poolState'',
         token0Mint = ''So11111111111111111111111111111111111111112'',
         token1Mint = ''EPjFWdd5AufqSSqeM2qN1xzybapC8G4wEGGkZwyTDt1v'',
         token0Vault = ''vault0'', token1Vault = ''vault1'',
         token0Program = ''tokenProgram'', token1Program = ''tokenProgram'',
         observationKey = ''observation''\<rparr>,
      getSwapBaseInputInstruction =
        (\<lambda>input. Inr \<lparr>programAddress = ''CPMMoo8L3F4NbTegBCKVNunggL7H1ZpdTHKxQB5qKP1C'',
                        accounts = metas, data = [143, 190, 90]\<rparr>)\<rparr>"

text \<open>Entries of an account list: one without a key, one with a key, and the agent's.\<close>

definition keyless :: "raw_meta option" where
  "keyless = Some \<lparr>pubkey = None, isSigner = False, isWritable = False\<rparr>"

definition keyed :: "string \<Rightarrow> raw_meta option" where
  "keyed s = Some \<lparr>pubkey = Some s, isSigner = False, isWritable = True\<rparr>"

definition agent_default :: pubkey where
  "agent_default = PublicKey ''HykotrnSrgYNACXfbNiS64zPzZGbyU94bxx9SWM1jMVR''"

definition agent_entry :: "raw_meta option" where
  "agent_entry =
     Some \<lparr>pubkey = Some ''HykotrnSrgYNACXfbNiS64zPzZGbyU94bxx9SWM1jMVR'',
           isSigner = False, isWritable = False\<rparr>"

text \<open>The transactions steps 5 and 2 build from these samples, for the swap keys \<open>ks\<close>.\<close>

definition sample_tx_05 :: "account_meta list \<Rightarrow> transaction" where
  "sample_tx_05 ks =
     \<lparr>recentBlockhash = ''blockhash'', feePayer = agent_default,
      instructions =
        [SetComputeUnitLimit 600000, SetComputeUnitPrice 150000,
         CreateAssociatedTokenAccountIdempotent agent_default
           (PublicKey ''ata-So11111111111111111111111111111111111111112'') agent_default
           NATIVE_MINT (PublicKey ''tokenProgram''),
         CreateAssociatedTokenAccountIdempotent agent_default
           (PublicKey ''ata-EPjFWdd5AufqSSqeM2qN1xzybapC8G4wEGGkZwyTDt1v'') agent_default
           USDC_MINT (PublicKey ''tokenProgram''),
         SystemTransfer agent_default
           (PublicKey ''ata-So11111111111111111111111111111111111111112'') 50000000,
         SyncNative (PublicKey ''ata-So11111111111111111111111111111111111111112'') None,
         TransactionInstruction (PublicKey ''CPMMoo8L3F4NbTegBCKVNunggL7H1ZpdTHKxQB5qKP1C'')
           ks [143, 190, 90],
         CloseAccount (PublicKey ''ata-So11111111111111111111111111111111111111112'')
           agent_default agent_default]\<rparr>"

definition sample_tx_02 :: "account_meta list \<Rightarrow> transaction" where
  "sample_tx_02 ks =
     \<lparr>recentBlockhash = ''blockhash'', feePayer = agent_default,
      instructions =
        [SetComputeUnitLimit 500000, SetComputeUnitPrice 200000,
         CreateAssociatedTokenAccountIdempotent agent_default
           (PublicKey ''ata-EPjFWdd5AufqSSqeM2qN1xzybapC8G4wEGGkZwyTDt1v'') agent_default
           USDC_MINT (PublicKey ''tokenProgram''),
         CreateAssociatedTokenAccountIdempotent agent_default
           (PublicKey ''ata-So11111111111111111111111111111111111111112'') agent_default
           NATIVE_MINT (PublicKey ''tokenProgram''),
         SystemTransfer agent_default
           (PublicKey ''ata-So11111111111111111111111111111111111111112'') 1,
         SyncNative (PublicKey ''ata-So11111111111111111111111111111111111111112'') None,
         TransactionInstruction (PublicKey ''CPMMoo8L3F4NbTegBCKVNunggL7H1ZpdTHKxQB5qKP1C'')
           ks [143, 190, 90],
         CloseAccount (PublicKey ''ata-So11111111111111111111111111111111111111112'')
           agent_default agent_default]\<rparr>"

text \<open>
  A second library, closer to web3.js in two points: a text holding a space is no key
  (no base58 text holds one), and the serialization depends on the instructions (here
  the number of accounts of each one).
\<close>

fun account_count :: "instruction \<Rightarrow> nat" where
  "account_count (SetComputeUnitLimit n) = 0"
| "account_count (SetComputeUnitPrice n) = 0"
| "account_count (CreateAssociatedTokenAccountIdempotent a b c d e) = 6"
| "account_count (SystemTransfer a b n) = 2"
| "account_count (SyncNative a b) = 1"
| "account_count (CloseAccount a b c) = 3"
| "account_count (TransactionInstruction a ks bs) = length ks"

definition strict_solana :: solana where
  "strict_solana =
     \<lparr>PAYER_PUBKEY = None,
      is_public_key = (\<lambda>s. s \<noteq> [] \<and> CHR '' '' \<notin> set s),
      getAssociatedTokenAddressSync =
        (\<lambda>mint owner program. Some (PublicKey (''ata-'' @ toBase58 mint))),
      serialize = (\<lambda>config tx. Inr (map account_count (instructions tx))),
      base64 = map (\<lambda>n. digit_char (n mod 10))\<rparr>"

text \<open>
  An SDK whose first \<open>k\<close> calls of \<open>create\<close> fail and whose later calls return a pool with
  bin arrays.
\<close>

definition flaky_sdk :: "nat \<Rightarrow> dlmm_sdk" where
  "flaky_sdk k =
     \<lparr>dlmm_create = (\<lambda>n pk. if n < k then Inl (RpcError ''fetch failed'')
        else Inr \<lparr>pool_programId = PublicKey ''LBUZ'', tokenX_publicKey = NATIVE_MINT,
                  tokenY_publicKey = USDC_MINT, tokenX_reserve = PublicKey ''rx'',
                  tokenY_reserve = PublicKey ''ry'', lbPair_oracle = PublicKey ''or'',
                  getBinArrayForSwap = (\<lambda>swapYtoX. Inr [Some ''bin1'', None, Some ''bin1'', Some ''bin0''])\<rparr>),
      memoProgramId = ''MemoSq4gqABAXKb96qnH8TysNcWxMyWCqXgDLGmfcHr''\<rparr>"

text \<open>
  The README's run: five steps, the second fails to build, the fifth crashes the
  remote.
\<close>

definition five_steps :: replay where
  "five_steps =
     \<lparr>step_count = 5,
      run_step = (\<lambda>i. if i = 1 then BuildRaised else Built ''AQID''),
      submit_step = (\<lambda>i tx. if i = 4 then Crashed else Accepted)\<rparr>"


section \<open>Properties of the step runner\<close>

lemma runTransaction_present:
  assumes "positional argv 2 \<noteq> []" "positional argv 3 \<noteq> []" "positional argv 4 \<noteq> []"
  shows "runTransaction w argv =
     (case try_block w (positional argv 2) (positional argv 3) (positional argv 4) of
        Returned t serialized_tx \<Rightarrow>
          \<lparr>stdout = [success_result serialized_tx], stderr = [],
           ending = LoopDrained, ended_at = max t (fire_time w (positional argv 3))\<rparr>
      | Threw t error \<Rightarrow>
          (case map_errors error of
             Some errors \<Rightarrow>
               \<lparr>stdout = [failure_result error errors], stderr = [Inspected error],
                ending = ProcessExit 1, ended_at = t\<rparr>
           | None \<Rightarrow>
               \<lparr>stdout = [], stderr = [Inspected error, UncaughtTypeError],
                ending = UnhandledRejection, ended_at = t\<rparr>)
      | Stuck \<Rightarrow> \<lparr>stdout = [], stderr = [], ending = NoExit, ended_at = 0\<rparr>)"
  using assms by (simp add: runTransaction_def Let_def)

lemma load_world_with:
  "load (world_with b) p = Inr \<lparr>executeSkill = Some (\<lambda>blockhash. b)\<rparr>"
  by (simp add: world_with_def)

lemma positional_argv_with:
  "positional (argv_with t) 2 = ''tx.ts''"
  "positional (argv_with t) 3 = t"
  "positional (argv_with t) 4 = ''blockhash''"
  by (simp_all add: positional_def argv_with_def)

lemma fire_30000: "fire_time (world_with b) ''30000'' = 30000"
  by (simp add: fire_time_def world_with_def parseInt10_def is_space_def is_digit_def
      nat_of_digits_def setTimeout_delay_def)

text \<open>
  C1. When the three positional arguments are present (non-empty), the module loads,
  \<open>executeSkill\<close> is a function and its promise resolves with \<open>serialized_tx\<close> before the
  timer fires, standard output holds exactly one line, the JSON of
  \<^verbatim>\<open>{success: true, serialized_tx}\<close>, and the process ends with exit code 0.
\<close>

theorem runner_success:
  assumes args: "positional argv 2 \<noteq> []" "positional argv 3 \<noteq> []" "positional argv 4 \<noteq> []"
    and loaded: "load w (resolve w (positional argv 2)) = Inr txModule"
    and func: "executeSkill txModule = Some f"
    and resolved: "f (positional argv 4) = Resolves t serialized_tx"
    and before: "t < fire_time w (positional argv 3)"
  shows "stdout (runTransaction w argv) =
           [JObj False [(''success'', JBool True), (''serialized_tx'', JStr serialized_tx)]]
         \<and> exit_code (ending (runTransaction w argv)) = Some 0"
proof -
  have "race w (positional argv 3) (Resolves t serialized_tx) = Returned t serialized_tx"
    using before by (simp add: race_def skill_first_def Let_def)
  then have "try_block w (positional argv 2) (positional argv 3) (positional argv 4)
               = Returned t serialized_tx"
    using loaded func resolved by (simp add: try_block_def)
  then show ?thesis
    using args by (simp add: runTransaction_present success_result_def)
qed

theorem runner_success_witness:
  "stdout (runTransaction (world_with (Resolves 1200 ''AQID'')) (argv_with ''30000'')) =
     [JObj False [(''success'', JBool True), (''serialized_tx'', JStr ''AQID'')]]
   \<and> exit_code (ending (runTransaction (world_with (Resolves 1200 ''AQID''))
         (argv_with ''30000''))) = Some 0"
  using runner_success [of "argv_with ''30000''" "world_with (Resolves 1200 ''AQID'')"
      "\<lparr>executeSkill = Some (\<lambda>blockhash. Resolves 1200 ''AQID'')\<rparr>"
      "\<lambda>blockhash. Resolves 1200 ''AQID''" 1200 "''AQID''"]
  by (simp add: positional_argv_with load_world_with fire_30000)

lemma get_failure_result:
  "get (failure_result e errs) ''success'' = JBool False"
  "get (failure_result e errs) ''error'' = fst (error_summary e)"
  "get (failure_result e errs) ''details'' = JStr (js_join [CHR 0x0A] (snd (error_summary e)))"
  "get (failure_result e errs) ''type'' =
     (if truthy (get e ''name'') then get e ''name'' else JStr ''UnknownError'')"
  "get (failure_result e errs) ''errors'' = errs"
  by (simp_all add: failure_result_def)

lemma get_sub_error:
  "get (sub_error x) ''message'' =
     (if truthy (get x ''message'') then get x ''message'' else JStr (js_String x))"
  "get (sub_error x) ''line'' = get x ''line''"
  "get (sub_error x) ''column'' = get x ''column''"
  "get (sub_error x) ''file'' = get x ''file''"
  by (simp_all add: sub_error_def)

lemma error_summary_string:
  "is_string (get e ''message'') \<or> \<not> is_Error e \<and> \<not> truthy (get e ''message'')
     \<Longrightarrow> is_string (fst (error_summary e))"
  by (auto simp: error_summary_def)

lemma map_errors_Some:
  "get e ''errors'' = JUndefined \<or> get e ''errors'' = JNull \<or> is_array (get e ''errors'')
   \<Longrightarrow> map_errors e =
         Some (if is_array (get e ''errors'')
               then JArr (map sub_error (array_items (get e ''errors''))) else JUndefined)"
  by (cases "get e ''errors''") (auto simp: map_errors_def)

text \<open>
  C2, as amended. Let the three arguments be present and the \<^verbatim>\<open>try\<close> block end by throwing
  \<open>e\<close> (the module cannot be loaded, \<open>executeSkill\<close> is missing, the build raises or
  rejects, or the timer wins), where the \<open>errors\<close> property of \<open>e\<close> is absent, null or an
  array. Then standard output holds exactly one line, the JSON of an object with
  \<open>success: false\<close>; \<open>details\<close> is a string; \<open>type\<close> is the name of \<open>e\<close> when that is truthy and
  \<^verbatim>\<open>'UnknownError'\<close> otherwise, hence a string whenever the name is a string or falsy;
  \<open>error\<close> is a string whenever the message of \<open>e\<close> is a string, or \<open>e\<close> is no Error and its
  message is falsy; when \<open>errors\<close> is an array, the \<open>errors\<close> list has one entry for each
  sub-error, with its line, column and file, and with its message when that is truthy
  (its string conversion otherwise); and the exit code is 1.
\<close>

theorem runner_failure:
  assumes args: "positional argv 2 \<noteq> []" "positional argv 3 \<noteq> []" "positional argv 4 \<noteq> []"
    and threw: "try_block w (positional argv 2) (positional argv 3) (positional argv 4) = Threw t e"
    and mappable: "get e ''errors'' = JUndefined \<or> get e ''errors'' = JNull
                   \<or> is_array (get e ''errors'')"
  shows "\<exists>line. stdout (runTransaction w argv) = [line]
           \<and> get line ''success'' = JBool False
           \<and> get line ''error'' = fst (error_summary e)
           \<and> (is_string (get e ''message'') \<or> \<not> is_Error e \<and> \<not> truthy (get e ''message'')
                \<longrightarrow> is_string (get line ''error''))
           \<and> is_string (get line ''details'')
           \<and> get line ''type'' =
                (if truthy (get e ''name'') then get e ''name'' else JStr ''UnknownError'')
           \<and> (is_string (get e ''name'') \<or> \<not> truthy (get e ''name'')
                \<longrightarrow> is_string (get line ''type''))
           \<and> (\<forall>es. get e ''errors'' = JArr es \<longrightarrow>
                (\<exists>out. get line ''errors'' = JArr out \<and> length out = length es
                   \<and> (\<forall>i < length es.
                         get (out ! i) ''line'' = get (es ! i) ''line''
                       \<and> get (out ! i) ''column'' = get (es ! i) ''column''
                       \<and> get (out ! i) ''file'' = get (es ! i) ''file''
                       \<and> get (out ! i) ''message'' =
                            (if truthy (get (es ! i) ''message'') then get (es ! i) ''message''
                             else JStr (js_String (es ! i))))))
           \<and> exit_code (ending (runTransaction w argv)) = Some 1"
proof -
  let ?errs = "if is_array (get e ''errors'')
               then JArr (map sub_error (array_items (get e ''errors''))) else JUndefined"
  let ?line = "failure_result e ?errs"
  have m: "map_errors e = Some ?errs"
    using mappable by (rule map_errors_Some)
  have run: "runTransaction w argv =
      \<lparr>stdout = [?line], stderr = [Inspected e], ending = ProcessExit 1, ended_at = t\<rparr>"
    using args threw m by (simp add: runTransaction_present)
  have out: "stdout (runTransaction w argv) = [?line]"
    and code: "exit_code (ending (runTransaction w argv)) = Some 1"
    by (simp_all add: run)
  have err: "is_string (get e ''message'') \<or> \<not> is_Error e \<and> \<not> truthy (get e ''message'')
               \<longrightarrow> is_string (get ?line ''error'')"
    by (simp only: get_failure_result) (blast intro: error_summary_string)
  have det: "is_string (get ?line ''details'')"
    by (simp only: get_failure_result is_string.simps)
  have tyf: "is_string (get e ''name'') \<or> \<not> truthy (get e ''name'')
               \<longrightarrow> is_string (get ?line ''type'')"
    by (simp only: get_failure_result) (cases "get e ''name''"; simp)
  have subs: "\<forall>es. get e ''errors'' = JArr es \<longrightarrow>
                (\<exists>out. get ?line ''errors'' = JArr out \<and> length out = length es
                   \<and> (\<forall>i < length es.
                         get (out ! i) ''line'' = get (es ! i) ''line''
                       \<and> get (out ! i) ''column'' = get (es ! i) ''column''
                       \<and> get (out ! i) ''file'' = get (es ! i) ''file''
                       \<and> get (out ! i) ''message'' =
                            (if truthy (get (es ! i) ''message'') then get (es ! i) ''message''
                             else JStr (js_String (es ! i)))))"
    by (simp add: get_failure_result get_sub_error)
  show ?thesis
    using out code err det tyf subs
    by (intro exI [of _ ?line] conjI) (simp_all only: get_failure_result)
qed

lemma try_block_world_with:
  "try_block (world_with b) f t bh = race (world_with b) t b"
  by (simp add: try_block_def load_world_with)

lemma race_rejects_early:
  "t < fire_time w ts \<Longrightarrow> race w ts (Rejects t e) = Threw t e"
  by (simp add: race_def skill_first_def Let_def)

lemma race_never:
  "race w ts Never = Threw (fire_time w ts) (new_Error w ''Transaction execution timed out.'')"
  by (simp add: race_def Let_def)

theorem runner_failure_witness:
  "try_block (world_with (Rejects 3 sample_aggregate)) ''tx.ts'' ''30000'' ''blockhash''
     = Threw 3 sample_aggregate
   \<and> is_array (get sample_aggregate ''errors'')
   \<and> (\<exists>line. stdout (runTransaction (world_with (Rejects 3 sample_aggregate)) (argv_with ''30000''))
                 = [line]
          \<and> get line ''success'' = JBool False
          \<and> get line ''error'' = JStr ''2 errors building tx.ts''
          \<and> get line ''type'' = JStr ''AggregateError'')
   \<and> exit_code (ending (runTransaction (world_with (Rejects 3 sample_aggregate))
         (argv_with ''30000''))) = Some 1"
proof -
  let ?w = "world_with (Rejects 3 sample_aggregate)"
  have threw: "try_block ?w (positional (argv_with ''30000'') 2)
                 (positional (argv_with ''30000'') 3) (positional (argv_with ''30000'') 4)
               = Threw 3 sample_aggregate"
    by (simp add: positional_argv_with try_block_world_with race_rejects_early fire_30000)
  have arr: "is_array (get sample_aggregate ''errors'')"
    by (simp add: sample_aggregate_def)
  have summary: "fst (error_summary sample_aggregate) = JStr ''2 errors building tx.ts''"
    and name: "get sample_aggregate ''name'' = JStr ''AggregateError''"
    by (simp_all add: error_summary_def sample_aggregate_def)
  from runner_failure [of "argv_with ''30000''" ?w 3 sample_aggregate] threw arr
  obtain line where
    "stdout (runTransaction ?w (argv_with ''30000'')) = [line]"
    "get line ''success'' = JBool False"
    "get line ''error'' = fst (error_summary sample_aggregate)"
    "get line ''type'' = (if truthy (get sample_aggregate ''name'')
                          then get sample_aggregate ''name'' else JStr ''UnknownError'')"
    "exit_code (ending (runTransaction ?w (argv_with ''30000''))) = Some 1"
    by (auto simp: positional_argv_with)
  then show ?thesis
    using threw arr by (auto simp: summary name positional_argv_with)
qed

text \<open>
  C2 as stated fails: a build that rejects with the object \<^verbatim>\<open>{name: 42}\<close> gives a result
  line whose \<open>type\<close> is the number 42, not a string.
\<close>

theorem runner_failure_type_not_string:
  "stdout (runTransaction (world_with (Rejects 3 (JObj False [(''name'', JNum 42)])))
      (argv_with ''30000'')) =
     [JObj False
        [(''success'', JBool False),
         (''error'', JStr ''An unknown error occurred.''),
         (''details'', JStr ''[object Object]''),
         (''type'', JNum 42),
         (''errors'', JUndefined)]]"
  by (simp add: runTransaction_present positional_argv_with try_block_world_with
      race_rejects_early fire_30000 map_errors_def failure_result_def error_summary_def
      js_join_def)

text \<open>
  A thrown value whose \<open>errors\<close> property is neither absent, null nor an array has no
  \<^verbatim>\<open>map\<close> method: building the failure result throws a TypeError inside the catch block,
  nothing is printed to standard output, and the process ends with code 1 through the
  unhandled rejection of \<^verbatim>\<open>runTransaction()\<close>.
\<close>

lemma runner_failure_unmappable_errors:
  assumes args: "positional argv 2 \<noteq> []" "positional argv 3 \<noteq> []" "positional argv 4 \<noteq> []"
    and threw: "try_block w (positional argv 2) (positional argv 3) (positional argv 4) = Threw t e"
    and unmappable: "map_errors e = None"
  shows "stdout (runTransaction w argv) = []
         \<and> stderr (runTransaction w argv) = [Inspected e, UncaughtTypeError]
         \<and> exit_code (ending (runTransaction w argv)) = Some 1"
  using args threw unmappable by (simp add: runTransaction_present)

lemma runner_failure_errors_is_text:
  "stdout (runTransaction
      (world_with (Rejects 3 (JObj True [(''message'', JStr ''invalid''), (''errors'', JStr ''x'')])))
      (argv_with ''30000'')) = []"
  by (simp add: runTransaction_present positional_argv_with try_block_world_with
      race_rejects_early fire_30000 map_errors_def)

text \<open>
  C3, as amended. When \<open>executeSkill\<close> returns a promise that never settles (and the event
  loop stays free), the race is rejected by the timer: standard output holds exactly
  one line, the failure result of the error \<^verbatim>\<open>Transaction execution timed out.\<close>, and
  nothing of the build; the process is ended by \<^verbatim>\<open>process.exit(1)\<close> at the moment the timer
  fires, which abandons the pending build. When the configured timeout is an integer of
  at most 2147483647 milliseconds, that moment is no earlier than the timeout.
\<close>

theorem runner_timeout:
  assumes args: "positional argv 2 \<noteq> []" "positional argv 3 \<noteq> []" "positional argv 4 \<noteq> []"
    and loaded: "load w (resolve w (positional argv 2)) = Inr txModule"
    and func: "executeSkill txModule = Some f"
    and pending: "f (positional argv 4) = Never"
  shows "stdout (runTransaction w argv) =
           [failure_result (new_Error w ''Transaction execution timed out.'') JUndefined]
         \<and> get (failure_result (new_Error w ''Transaction execution timed out.'') JUndefined)
              ''success'' = JBool False
         \<and> get (failure_result (new_Error w ''Transaction execution timed out.'') JUndefined)
              ''error'' = JStr ''Transaction execution timed out.''
         \<and> ending (runTransaction w argv) = ProcessExit 1
         \<and> ended_at (runTransaction w argv) = fire_time w (positional argv 3)
         \<and> (\<forall>n. parseInt10 (positional argv 3) = Some n \<and> n \<le> 2147483647
                \<longrightarrow> n \<le> int (ended_at (runTransaction w argv)))"
proof -
  let ?e = "new_Error w ''Transaction execution timed out.''"
  have "try_block w (positional argv 2) (positional argv 3) (positional argv 4)
          = Threw (fire_time w (positional argv 3)) ?e"
    using loaded func pending by (simp add: try_block_def race_never)
  moreover have "map_errors ?e = Some JUndefined"
    by (simp add: map_errors_def new_Error_def)
  ultimately have run: "runTransaction w argv =
      \<lparr>stdout = [failure_result ?e JUndefined], stderr = [Inspected ?e],
       ending = ProcessExit 1, ended_at = fire_time w (positional argv 3)\<rparr>"
    using args by (simp add: runTransaction_present)
  have msg: "get (failure_result ?e JUndefined) ''error'' = JStr ''Transaction execution timed out.''"
    by (simp add: failure_result_def error_summary_def new_Error_def)
  have late: "\<forall>n. parseInt10 (positional argv 3) = Some n \<and> n \<le> 2147483647
                \<longrightarrow> n \<le> int (fire_time w (positional argv 3))"
    by (auto simp: fire_time_def setTimeout_delay_def)
  show ?thesis
    using msg late by (simp add: run failure_result_def)
qed

theorem runner_timeout_witness:
  "parseInt10 ''30000'' = Some 30000
   \<and> stdout (runTransaction (world_with Never) (argv_with ''30000'')) =
       [failure_result (new_Error (world_with Never) ''Transaction execution timed out.'')
          JUndefined]
   \<and> ending (runTransaction (world_with Never) (argv_with ''30000'')) = ProcessExit 1
   \<and> (30000 :: int) \<le> int (ended_at (runTransaction (world_with Never) (argv_with ''30000'')))"
proof -
  have p: "parseInt10 ''30000'' = Some 30000"
    by (simp add: parseInt10_def is_space_def is_digit_def nat_of_digits_def)
  from runner_timeout [of "argv_with ''30000''" "world_with Never"
      "\<lparr>executeSkill = Some (\<lambda>blockhash. Never)\<rparr>" "\<lambda>blockhash. Never"]
  show ?thesis
    using p by (simp add: positional_argv_with load_world_with)
qed

lemma fire_time_world_with:
  "fire_time (world_with b) ts = setTimeout_delay (parseInt10 ts)"
  by (simp add: fire_time_def world_with_def)

text \<open>
  C3 as stated fails: with a configured timeout of 2147483648 ms the timer's delay is
  set to 1 ms, and the run fails with the timeout error after 1 ms.
\<close>

theorem runner_timeout_fires_early:
  "parseInt10 ''2147483648'' = Some 2147483648
   \<and> ended_at (runTransaction (world_with Never) (argv_with ''2147483648'')) = 1"
  by (simp add: runTransaction_present positional_argv_with try_block_world_with race_never
      map_errors_def new_Error_def fire_time_world_with parseInt10_def is_space_def
      is_digit_def nat_of_digits_def setTimeout_delay_def)

text \<open>
  C4, as amended. With one of the three positional arguments missing, nothing is written
  to standard output: the usage text goes to standard error and the process exits with
  code 1. With all three present, a build that returns gives exactly the success line,
  and a failure whose thrown value has an \<open>errors\<close> property that is absent, null or an
  array gives exactly the failure line, the thrown value itself going to standard
  error. In every invocation standard output holds at most one line, and only result
  objects with a boolean \<open>success\<close>.
\<close>

theorem runner_result_channel:
  "(positional argv 2 = [] \<or> positional argv 3 = [] \<or> positional argv 4 = [] \<longrightarrow>
      stdout (runTransaction w argv) = []
      \<and> stderr (runTransaction w argv) =
          [Usage ''Usage: bun runTransaction.ts <file> <timeoutMs> <latestBlockhash>'']
      \<and> ending (runTransaction w argv) = ProcessExit 1)
   \<and> (positional argv 2 \<noteq> [] \<and> positional argv 3 \<noteq> [] \<and> positional argv 4 \<noteq> [] \<longrightarrow>
        (\<forall>t s. try_block w (positional argv 2) (positional argv 3) (positional argv 4)
                 = Returned t s \<longrightarrow>
               stdout (runTransaction w argv) = [success_result s]
               \<and> stderr (runTransaction w argv) = [])
      \<and> (\<forall>t e errs. try_block w (positional argv 2) (positional argv 3) (positional argv 4)
                 = Threw t e \<and> map_errors e = Some errs \<longrightarrow>
               stdout (runTransaction w argv) = [failure_result e errs]
               \<and> stderr (runTransaction w argv) = [Inspected e]))
   \<and> length (stdout (runTransaction w argv)) \<le> 1
   \<and> (\<forall>v \<in> set (stdout (runTransaction w argv)). \<exists>b. get v ''success'' = JBool b)"
proof (cases "positional argv 2 = [] \<or> positional argv 3 = [] \<or> positional argv 4 = []")
  case True
  then have "runTransaction w argv =
      \<lparr>stdout = [],
       stderr = [Usage ''Usage: bun runTransaction.ts <file> <timeoutMs> <latestBlockhash>''],
       ending = ProcessExit 1, ended_at = 0\<rparr>"
    by (simp add: runTransaction_def Let_def)
  with True show ?thesis by auto
next
  case False
  then have present: "positional argv 2 \<noteq> []" "positional argv 3 \<noteq> []" "positional argv 4 \<noteq> []"
    by simp_all
  show ?thesis
    using False
    by (cases "try_block w (positional argv 2) (positional argv 3) (positional argv 4)")
       (auto simp: runTransaction_present [OF present] success_result_def failure_result_def
             split: option.splits)
qed

theorem runner_result_channel_witness:
  "stdout (runTransaction (world_with (Resolves 1200 ''AQID'')) (argv_with ''30000''))
     = [success_result ''AQID'']
   \<and> stderr (runTransaction (world_with (Resolves 1200 ''AQID'')) (argv_with ''30000'')) = []
   \<and> stdout (runTransaction (world_with (Resolves 1200 ''AQID'')) [''bun'', ''runTransaction.ts'']) = []"
proof -
  let ?w = "world_with (Resolves 1200 ''AQID'')"
  have r: "try_block ?w ''tx.ts'' ''30000'' ''blockhash'' = Returned 1200 ''AQID''"
    by (simp add: try_block_world_with race_def skill_first_def fire_30000)
  have missing: "positional [''bun'', ''runTransaction.ts''] 2 = []"
    by (simp add: positional_def)
  show ?thesis
    using runner_result_channel [of "argv_with ''30000''" ?w]
      runner_result_channel [of "[''bun'', ''runTransaction.ts'']" ?w] r missing
    by (simp add: positional_argv_with)
qed

text \<open>
  C4 as stated fails: with the third positional argument missing, standard output stays
  empty.
\<close>

theorem runner_usage_writes_no_result:
  "stdout (runTransaction (world_with (Resolves 1200 ''AQID''))
      [''bun'', ''runTransaction.ts'', ''tx.ts'', ''30000'']) = []
   \<and> exit_code (ending (runTransaction (world_with (Resolves 1200 ''AQID''))
      [''bun'', ''runTransaction.ts'', ''tx.ts'', ''30000''])) = Some 1"
  by (simp add: runTransaction_def positional_def)


section \<open>Properties of the transaction builders\<close>

lemma andThen_Inr_iff: "andThen r f = Inr y \<longleftrightarrow> (\<exists>x. r = Inr x \<and> f x = Inr y)"
  by (cases r) (simp_all add: andThen_def)

lemma andThen_Inl: "andThen (Inl e) f = Inl e"
  by (simp add: andThen_def)

lemma andThen_Inr: "andThen (Inr x) f = f x"
  by (simp add: andThen_def)

lemma swap_key_valid:
  "has_pubkey meta \<Longrightarrow> is_public_key lib (key_text meta) \<Longrightarrow>
   swap_key lib agent meta = Inr (expected_key agent meta)"
  by (cases meta)
     (auto simp: swap_key_def has_pubkey_def key_text_def new_PublicKey_def andThen_def
       expected_key_def Let_def)

lemma swap_key_Inr:
  "swap_key lib agent meta = Inr k \<Longrightarrow> k = expected_key agent meta"
  by (cases meta)
     (auto simp: swap_key_def key_text_def new_PublicKey_def andThen_def
       expected_key_def Let_def split: if_splits)

lemma expected_key_agent:
  "meta_pubkey (expected_key agent meta) = agent \<Longrightarrow>
   meta_isSigner (expected_key agent meta) \<and> meta_isWritable (expected_key agent meta)"
  by (simp add: expected_key_def)

lemma map_swap_key_Inr:
  "map_swap_key lib agent metas = Inr ks \<Longrightarrow> ks = map (expected_key agent) metas"
  by (induction metas arbitrary: ks) (auto simp: andThen_Inr_iff dest: swap_key_Inr)

lemma map_swap_key_valid:
  "\<forall>m \<in> set metas. has_pubkey m \<and> is_public_key lib (key_text m) \<Longrightarrow>
   map_swap_key lib agent metas = Inr (map (expected_key agent) metas)"
  by (induction metas) (simp_all add: swap_key_valid andThen_Inr)

lemma swapKeys_02_missing:
  "j < length metas \<Longrightarrow> 0 < index + j \<Longrightarrow> \<not> has_pubkey (metas ! j) \<Longrightarrow>
   \<exists>e. swapKeys_02 lib agent index metas = Inl e"
proof (induction metas arbitrary: index j)
  case Nil
  then show ?case by simp
next
  case (Cons meta rest)
  show ?case
  proof (cases j)
    case 0
    with Cons.prems show ?thesis by (simp add: andThen_Inl)
  next
    case (Suc j')
    with Cons.prems have "\<exists>e. swapKeys_02 lib agent (Suc index) rest = Inl e"
      by (intro Cons.IH [of j']) simp_all
    then obtain e where e: "swapKeys_02 lib agent (Suc index) rest = Inl e" ..
    show ?thesis
      by (cases "if \<not> has_pubkey meta then
                   (if index = 0 then Inr (AccountMeta agent True True)
                    else Inl (MissingAccount index))
                 else swap_key lib agent meta")
         (simp_all add: e andThen_def)
  qed
qed

lemma swapKeys_02_from_1:
  "0 < index \<Longrightarrow> \<forall>m \<in> set metas. has_pubkey m \<and> is_public_key lib (key_text m) \<Longrightarrow>
   swapKeys_02 lib agent index metas = Inr (map (expected_key agent) metas)"
  by (induction metas arbitrary: index) (simp_all add: swap_key_valid andThen_Inr)

lemma swapKeys_02_agent:
  "swapKeys_02 lib agent index metas = Inr ks \<Longrightarrow>
   \<forall>k \<in> set ks. meta_pubkey k = agent \<longrightarrow> meta_isSigner k \<and> meta_isWritable k"
proof (induction metas arbitrary: index ks)
  case Nil
  then show ?case by simp
next
  case (Cons meta rest)
  from Cons.prems obtain k ks' where
    k: "(if \<not> has_pubkey meta then
           (if index = 0 then Inr (AccountMeta agent True True) else Inl (MissingAccount index))
         else swap_key lib agent meta) = Inr k"
    and rest: "swapKeys_02 lib agent (Suc index) rest = Inr ks'"
    and ks: "ks = k # ks'"
    by (auto simp: andThen_Inr_iff)
  have "meta_pubkey k = agent \<longrightarrow> meta_isSigner k \<and> meta_isWritable k"
    using k by (auto split: if_splits dest!: swap_key_Inr simp: expected_key_def)
  with Cons.IH [OF rest] ks show ?case by simp
qed

lemma raw_swap_Inr:
  "raw_swap lib sdk agent k amount = Inr raw \<Longrightarrow>
   (\<exists>input. getSwapBaseInputInstruction sdk input = Inr raw) \<and> programAddress raw \<noteq> []"
  by (auto simp: raw_swap_def andThen_Inr_iff split: if_splits)

lemma build_02_Inr:
  assumes "build_02 lib sdk blockhash = Inr tx"
  shows "\<exists>agent k raw ks pid.
           agentPubkey lib = Inr agent
         \<and> raw_swap lib sdk agent k 5000000 = Inr raw
         \<and> swapKeys_02 lib agent 0 (accounts raw) = Inr ks
         \<and> recentBlockhash tx = blockhash \<and> feePayer tx = agent
         \<and> instructions tx =
              [SetComputeUnitLimit 500000, SetComputeUnitPrice 200000]
              @ create_atas agent k
              @ (if outputTokenMint k = NATIVE_MINT
                 then [SystemTransfer agent (outAta k) 1, SyncNative (outAta k) None] else [])
              @ [TransactionInstruction pid ks (data raw)]
              @ (if outputTokenMint k = NATIVE_MINT
                 then [CloseAccount (outAta k) agent agent] else [])"
  using assms unfolding build_02_def andThen_Inr_iff by fastforce

lemma build_05_Inr:
  assumes "build_05 lib sdk blockhash = Inr tx"
  shows "\<exists>agent k raw ks pid.
           agentPubkey lib = Inr agent
         \<and> raw_swap lib sdk agent k 50000000 = Inr raw
         \<and> swapKeys_05 lib agent (accounts raw) = Inr ks
         \<and> recentBlockhash tx = blockhash \<and> feePayer tx = agent
         \<and> instructions tx =
              [SetComputeUnitLimit 600000, SetComputeUnitPrice 150000]
              @ create_atas agent k
              @ [SystemTransfer agent (inAta k) 50000000, SyncNative (inAta k) None]
              @ [TransactionInstruction pid ks (data raw)]
              @ [CloseAccount (inAta k) agent agent]"
  using assms unfolding build_05_def andThen_Inr_iff by fastforce

lemma build_meteora_Inr:
  assumes "build_meteora lib sdk blockhash = Inr tx"
  shows "\<exists>agent. agentPubkey lib = Inr agent
         \<and> recentBlockhash tx = blockhash \<and> feePayer tx = agent"
  using assms unfolding build_meteora_def andThen_Inr_iff Let_def by fastforce

lemma builder_missing_raises:
  assumes bad: "\<forall>input raw. getSwapBaseInputInstruction sdk input = Inr raw \<longrightarrow>
                  (\<exists>i. 0 < i \<and> i < length (accounts raw) \<and> \<not> has_pubkey (accounts raw ! i))"
  shows "\<exists>e. executeSkill_02 lib sdk blockhash = Inl e"
proof -
  have "build_02 lib sdk blockhash \<noteq> Inr tx" for tx
  proof
    assume "build_02 lib sdk blockhash = Inr tx"
    then obtain agent k raw ks where
      raw: "raw_swap lib sdk agent k 5000000 = Inr raw"
      and ks: "swapKeys_02 lib agent 0 (accounts raw) = Inr ks"
      using build_02_Inr by blast
    from raw_swap_Inr [OF raw] bad obtain i where
      "0 < i" "i < length (accounts raw)" "\<not> has_pubkey (accounts raw ! i)"
      by blast
    then have "\<exists>e. swapKeys_02 lib agent 0 (accounts raw) = Inl e"
      by (intro swapKeys_02_missing [of i]) simp_all
    with ks show False by simp
  qed
  then obtain e where "build_02 lib sdk blockhash = Inl e"
    by (cases "build_02 lib sdk blockhash") auto
  then show ?thesis
    by (simp add: executeSkill_02_def andThen_Inl)
qed

text \<open>
  C6. If every account list the Raydium builder returns has an entry without a key at an
  index other than 0, step 2 raises an error and returns no serialized transaction. An
  entry without a key at index 0 is replaced by the agent's account, a signer and
  writable, and the rest of the list is processed as usual: when all the other entries
  carry valid keys, the keys of the swap are the agent's account followed by theirs.
\<close>

theorem step2_missing_account:
  "((\<forall>input raw. getSwapBaseInputInstruction sdk input = Inr raw \<longrightarrow>
        (\<exists>i. 0 < i \<and> i < length (accounts raw) \<and> \<not> has_pubkey (accounts raw ! i)))
     \<longrightarrow> (\<exists>e. executeSkill_02 lib sdk blockhash = Inl e))
   \<and> (\<not> has_pubkey meta \<longrightarrow>
        swapKeys_02 lib agent 0 (meta # rest) =
          andThen (swapKeys_02 lib agent (Suc 0) rest)
            (\<lambda>ks. Inr (AccountMeta agent True True # ks)))
   \<and> (\<not> has_pubkey meta \<and> (\<forall>m \<in> set rest. has_pubkey m \<and> is_public_key lib (key_text m)) \<longrightarrow>
        swapKeys_02 lib agent 0 (meta # rest) =
          Inr (AccountMeta agent True True # map (expected_key agent) rest))"
proof (intro conjI impI)
  assume "\<forall>input raw. getSwapBaseInputInstruction sdk input = Inr raw \<longrightarrow>
            (\<exists>i. 0 < i \<and> i < length (accounts raw) \<and> \<not> has_pubkey (accounts raw ! i))"
  then show "\<exists>e. executeSkill_02 lib sdk blockhash = Inl e"
    by (rule builder_missing_raises)
next
  assume "\<not> has_pubkey meta"
  then show "swapKeys_02 lib agent 0 (meta # rest) =
          andThen (swapKeys_02 lib agent (Suc 0) rest)
            (\<lambda>ks. Inr (AccountMeta agent True True # ks))"
    by (simp add: andThen_Inr)
next
  assume "\<not> has_pubkey meta \<and> (\<forall>m \<in> set rest. has_pubkey m \<and> is_public_key lib (key_text m))"
  then show "swapKeys_02 lib agent 0 (meta # rest) =
          Inr (AccountMeta agent True True # map (expected_key agent) rest)"
    by (simp add: andThen_Inr swapKeys_02_from_1)
qed

lemma sample_builder_returns:
  "getSwapBaseInputInstruction (sample_raydium metas) input = Inr raw \<Longrightarrow> accounts raw = metas"
  by (auto simp: sample_raydium_def)

lemma not_has_pubkey_keyless: "\<not> has_pubkey keyless"
  by (simp add: has_pubkey_def key_text_def keyless_def)

lemma has_pubkey_keyed: "has_pubkey (keyed ''poolState'')" "key_text (keyed ''poolState'') = ''poolState''"
  by (simp_all add: has_pubkey_def key_text_def keyed_def)

lemma sample_is_public_key: "is_public_key sample_solana s = (s \<noteq> [])"
  by (simp add: sample_solana_def)

theorem step2_missing_account_witness:
  "(\<exists>e. executeSkill_02 sample_solana
           (sample_raydium [keyless, keyed ''poolState'', keyless]) ''blockhash'' = Inl e)
   \<and> swapKeys_02 sample_solana (PublicKey ''agent'') 0 [keyless, keyed ''poolState''] =
       Inr [AccountMeta (PublicKey ''agent'') True True,
            AccountMeta (PublicKey ''poolState'') False True]"
proof -
  let ?metas = "[keyless, keyed ''poolState'', keyless]"
  have bad: "\<forall>input raw. getSwapBaseInputInstruction (sample_raydium ?metas) input = Inr raw \<longrightarrow>
               (\<exists>i. 0 < i \<and> i < length (accounts raw) \<and> \<not> has_pubkey (accounts raw ! i))"
  proof (intro allI impI)
    fix input raw
    assume "getSwapBaseInputInstruction (sample_raydium ?metas) input = Inr raw"
    then have "accounts raw = ?metas" by (rule sample_builder_returns)
    then have "0 < (2::nat) \<and> 2 < length (accounts raw) \<and> \<not> has_pubkey (accounts raw ! 2)"
      by (simp add: not_has_pubkey_keyless)
    then show "\<exists>i. 0 < i \<and> i < length (accounts raw) \<and> \<not> has_pubkey (accounts raw ! i)" ..
  qed
  have valid: "\<not> has_pubkey keyless \<and>
      (\<forall>m \<in> set [keyed ''poolState'']. has_pubkey m \<and> is_public_key sample_solana (key_text m))"
    by (simp add: not_has_pubkey_keyless has_pubkey_keyed sample_is_public_key)
  have e: "expected_key (PublicKey ''agent'') (keyed ''poolState'')
             = AccountMeta (PublicKey ''poolState'') False True"
    by (simp add: expected_key_def keyed_def key_text_def)
  note claim = step2_missing_account [of "sample_raydium ?metas" sample_solana "''blockhash''"
        keyless "PublicKey ''agent''" "[keyed ''poolState'']"]
  from claim bad have raises: "\<exists>e. executeSkill_02 sample_solana (sample_raydium ?metas)
                                      ''blockhash'' = Inl e"
    by blast
  from claim valid have "swapKeys_02 sample_solana (PublicKey ''agent'') 0
                           [keyless, keyed ''poolState''] =
       Inr (AccountMeta (PublicKey ''agent'') True True
            # map (expected_key (PublicKey ''agent'')) [keyed ''poolState''])"
    by blast
  then have "swapKeys_02 sample_solana (PublicKey ''agent'') 0 [keyless, keyed ''poolState''] =
       Inr [AccountMeta (PublicKey ''agent'') True True,
            AccountMeta (PublicKey ''poolState'') False True]"
    by (simp only: list.map e)
  with raises show ?thesis by blast
qed

lemma swapKeys_05_agent:
  assumes "swapKeys_05 lib agent metas = Inr ks"
  shows "\<forall>k \<in> set ks. meta_pubkey k = agent \<longrightarrow> meta_isSigner k \<and> meta_isWritable k"
proof -
  from assms have "ks = map (expected_key agent) (filter has_pubkey metas)"
    unfolding swapKeys_05_def by (rule map_swap_key_Inr)
  then show ?thesis
    using expected_key_agent by auto
qed

lemma swap_instruction_02:
  assumes "build_02 lib sdk blockhash = Inr tx"
    and "TransactionInstruction pid ks d \<in> set (instructions tx)"
  shows "\<exists>metas. swapKeys_02 lib (feePayer tx) 0 metas = Inr ks"
  using build_02_Inr [OF assms(1)] assms(2)
  by (auto simp: create_atas_def split: if_splits)

lemma swap_instruction_05:
  assumes "build_05 lib sdk blockhash = Inr tx"
    and "TransactionInstruction pid ks d \<in> set (instructions tx)"
  shows "\<exists>metas. (\<exists>raw input. getSwapBaseInputInstruction sdk input = Inr raw
                     \<and> metas = accounts raw)
           \<and> swapKeys_05 lib (feePayer tx) metas = Inr ks"
  using build_05_Inr [OF assms(1)] assms(2)
  by (auto simp: create_atas_def dest!: raw_swap_Inr) blast

text \<open>
  C10. In every transaction step 2 or step 5 builds, the fee payer is the agent, and in
  every hand-built instruction of it (the swap is the only one) each account whose key
  is the agent's is a signer and writable, whatever the SDK reported for it.
\<close>

theorem agent_key_signs_and_is_writable:
  "(\<forall>tx. build_02 lib sdk blockhash = Inr tx \<longrightarrow>
       agentPubkey lib = Inr (feePayer tx)
       \<and> (\<forall>pid ks d. TransactionInstruction pid ks d \<in> set (instructions tx) \<longrightarrow>
            (\<forall>k \<in> set ks. meta_pubkey k = feePayer tx \<longrightarrow> meta_isSigner k \<and> meta_isWritable k)))
   \<and> (\<forall>tx. build_05 lib sdk blockhash = Inr tx \<longrightarrow>
       agentPubkey lib = Inr (feePayer tx)
       \<and> (\<forall>pid ks d. TransactionInstruction pid ks d \<in> set (instructions tx) \<longrightarrow>
            (\<forall>k \<in> set ks. meta_pubkey k = feePayer tx \<longrightarrow> meta_isSigner k \<and> meta_isWritable k)))"
proof (intro conjI allI impI)
  fix tx assume "build_02 lib sdk blockhash = Inr tx"
  then show "agentPubkey lib = Inr (feePayer tx)"
    using build_02_Inr by fastforce
next
  fix tx pid ks d
  assume "build_02 lib sdk blockhash = Inr tx"
    and "TransactionInstruction pid ks d \<in> set (instructions tx)"
  then obtain metas where "swapKeys_02 lib (feePayer tx) 0 metas = Inr ks"
    using swap_instruction_02 by blast
  then show "\<forall>k \<in> set ks. meta_pubkey k = feePayer tx \<longrightarrow> meta_isSigner k \<and> meta_isWritable k"
    by (rule swapKeys_02_agent)
next
  fix tx assume "build_05 lib sdk blockhash = Inr tx"
  then show "agentPubkey lib = Inr (feePayer tx)"
    using build_05_Inr by fastforce
next
  fix tx pid ks d
  assume "build_05 lib sdk blockhash = Inr tx"
    and "TransactionInstruction pid ks d \<in> set (instructions tx)"
  then obtain metas where "swapKeys_05 lib (feePayer tx) metas = Inr ks"
    using swap_instruction_05 by meson
  then show "\<forall>k \<in> set ks. meta_pubkey k = feePayer tx \<longrightarrow> meta_isSigner k \<and> meta_isWritable k"
    by (rule swapKeys_05_agent)
qed

lemma sample_agent: "agentPubkey sample_solana = Inr agent_default"
  by (simp add: agentPubkey_def sample_solana_def agent_default_def)

lemma sample_pool_keys_05:
  "derive_pool_keys sample_solana (RAYDIUM (sample_raydium metas)) NATIVE_MINT agent =
     Inr \<lparr>inputVault = PublicKey ''vault0'', outputVault = PublicKey ''vault1'',
          inputTokenProgram = PublicKey ''tokenProgram'',
          outputTokenProgram = PublicKey ''tokenProgram'',
          inputTokenMint = NATIVE_MINT, outputTokenMint = USDC_MINT,
          inAta = PublicKey ''ata-So11111111111111111111111111111111111111112'',
          outAta = PublicKey ''ata-EPjFWdd5AufqSSqeM2qN1xzybapC8G4wEGGkZwyTDt1v''\<rparr>"
  by (simp add: derive_pool_keys_def sample_raydium_def sample_solana_def NATIVE_MINT_def
      USDC_MINT_def new_PublicKey_def andThen_def associated_token_address_def)

lemma sample_pool_keys_02:
  "derive_pool_keys sample_solana (RAYDIUM (sample_raydium metas)) USDC_MINT agent =
     Inr \<lparr>inputVault = PublicKey ''vault1'', outputVault = PublicKey ''vault0'',
          inputTokenProgram = PublicKey ''tokenProgram'',
          outputTokenProgram = PublicKey ''tokenProgram'',
          inputTokenMint = USDC_MINT, outputTokenMint = NATIVE_MINT,
          inAta = PublicKey ''ata-EPjFWdd5AufqSSqeM2qN1xzybapC8G4wEGGkZwyTDt1v'',
          outAta = PublicKey ''ata-So11111111111111111111111111111111111111112''\<rparr>"
  by (simp add: derive_pool_keys_def sample_raydium_def sample_solana_def NATIVE_MINT_def
      USDC_MINT_def new_PublicKey_def andThen_def associated_token_address_def)

lemma sample_raw_swap:
  "raw_swap sample_solana (sample_raydium metas) agent k amount =
     Inr \<lparr>programAddress = ''CPMMoo8L3F4NbTegBCKVNunggL7H1ZpdTHKxQB5qKP1C'',
          accounts = metas, data = [143, 190, 90]\<rparr>"
  by (simp add: raw_swap_def sample_raydium_def sample_solana_def new_PublicKey_def andThen_def)

lemma sample_program:
  "new_PublicKey sample_solana ''CPMMoo8L3F4NbTegBCKVNunggL7H1ZpdTHKxQB5qKP1C'' =
     Inr (PublicKey ''CPMMoo8L3F4NbTegBCKVNunggL7H1ZpdTHKxQB5qKP1C'')"
  by (simp add: new_PublicKey_def sample_solana_def)

lemma sample_build_05:
  "swapKeys_05 sample_solana agent_default metas = Inr ks \<Longrightarrow>
   build_05 sample_solana (sample_raydium metas) ''blockhash'' = Inr (sample_tx_05 ks)"
  by (simp add: build_05_def sample_agent sample_pool_keys_05 sample_raw_swap sample_program
      andThen_Inr create_atas_def sample_tx_05_def)

lemma sample_serialize:
  "serialize_base64 sample_solana (sample_tx_05 ks) = Inr ''94''"
  by (simp add: serialize_base64_def sample_solana_def sample_tx_05_def andThen_def
      agent_default_def digit_char_def)

lemma sample_build_02:
  "swapKeys_02 sample_solana agent_default 0 metas = Inr ks \<Longrightarrow>
   build_02 sample_solana (sample_raydium metas) ''blockhash'' = Inr (sample_tx_02 ks)"
  by (simp add: build_02_def sample_agent sample_pool_keys_02 sample_raw_swap sample_program
      andThen_Inr create_atas_def sample_tx_02_def)

lemma sample_swap_key_pool:
  "swap_key sample_solana agent_default (keyed ''poolState'') =
     Inr (AccountMeta (PublicKey ''poolState'') False True)"
  by (simp add: swap_key_def keyed_def key_text_def new_PublicKey_def sample_solana_def
      andThen_def agent_default_def)

lemma sample_swap_key_agent:
  "swap_key sample_solana agent_default agent_entry = Inr (AccountMeta agent_default True True)"
  by (simp add: swap_key_def agent_entry_def key_text_def new_PublicKey_def sample_solana_def
      andThen_def agent_default_def)

lemma has_pubkey_agent_entry: "has_pubkey agent_entry"
  by (simp add: has_pubkey_def key_text_def agent_entry_def)

lemma sample_swapKeys_02:
  "swapKeys_02 sample_solana agent_default 0 [keyless, keyed ''poolState'', agent_entry] =
     Inr [AccountMeta agent_default True True,
          AccountMeta (PublicKey ''poolState'') False True,
          AccountMeta agent_default True True]"
  by (simp add: not_has_pubkey_keyless has_pubkey_keyed has_pubkey_agent_entry
      sample_swap_key_pool sample_swap_key_agent andThen_Inr)

lemma sample_swapKeys_05:
  "swapKeys_05 sample_solana agent_default [keyless, keyed ''poolState'', keyless] =
     Inr [AccountMeta (PublicKey ''poolState'') False True]"
  by (simp add: swapKeys_05_def not_has_pubkey_keyless has_pubkey_keyed
      sample_swap_key_pool andThen_Inr)

theorem agent_key_signs_and_is_writable_witness:
  "build_02 sample_solana (sample_raydium [keyless, keyed ''poolState'', agent_entry])
      ''blockhash'' =
     Inr (sample_tx_02 [AccountMeta agent_default True True,
                        AccountMeta (PublicKey ''poolState'') False True,
                        AccountMeta agent_default True True])
   \<and> agentPubkey sample_solana = Inr agent_default
   \<and> isSigner (the agent_entry) = False \<and> isWritable (the agent_entry) = False
   \<and> meta_isSigner (AccountMeta agent_default True True)
   \<and> meta_isWritable (AccountMeta agent_default True True)"
proof -
  let ?ks = "[AccountMeta agent_default True True,
              AccountMeta (PublicKey ''poolState'') False True,
              AccountMeta agent_default True True]"
  have built: "build_02 sample_solana (sample_raydium [keyless, keyed ''poolState'', agent_entry])
                 ''blockhash'' = Inr (sample_tx_02 ?ks)"
    by (rule sample_build_02) (rule sample_swapKeys_02)
  have swap: "TransactionInstruction (PublicKey ''CPMMoo8L3F4NbTegBCKVNunggL7H1ZpdTHKxQB5qKP1C'')
                ?ks [143, 190, 90] \<in> set (instructions (sample_tx_02 ?ks))"
    by (simp add: sample_tx_02_def)
  have payer: "feePayer (sample_tx_02 ?ks) = agent_default"
    by (simp add: sample_tx_02_def)
  note claim = agent_key_signs_and_is_writable
         [of sample_solana "sample_raydium [keyless, keyed ''poolState'', agent_entry]"
            "''blockhash''"]
  from claim built have agent: "agentPubkey sample_solana = Inr (feePayer (sample_tx_02 ?ks))"
    by blast
  from claim built swap
  have "\<forall>k \<in> set ?ks. meta_pubkey k = feePayer (sample_tx_02 ?ks)
          \<longrightarrow> meta_isSigner k \<and> meta_isWritable k"
    by blast
  then have "meta_isSigner (AccountMeta agent_default True True)
             \<and> meta_isWritable (AccountMeta agent_default True True)"
    by (simp add: payer)
  then show ?thesis
    using built agent by (simp add: payer agent_entry_def)
qed

lemma raw_swap_without_keyless:
  "raw_swap lib (without_keyless sdk) agent k amount =
     andThen (raw_swap lib sdk agent k amount)
       (\<lambda>raw. Inr (raw\<lparr>accounts := filter has_pubkey (accounts raw)\<rparr>))"
  by (auto simp: raw_swap_def without_keyless_def andThen_def split: sum.splits)

lemma build_05_without_keyless:
  "build_05 lib (without_keyless sdk) blockhash = build_05 lib sdk blockhash"
proof -
  have env: "RAYDIUM (without_keyless sdk) = RAYDIUM sdk"
    by (simp add: without_keyless_def)
  show ?thesis
    unfolding build_05_def raw_swap_without_keyless env
    by (auto simp: andThen_def swapKeys_05_def split: sum.splits)
qed

lemma build_05_returns:
  assumes agent: "agentPubkey lib = Inr agent"
    and k: "derive_pool_keys lib (RAYDIUM sdk) NATIVE_MINT agent = Inr k"
    and raw: "raw_swap lib sdk agent k 50000000 = Inr raw"
    and keys: "\<forall>m \<in> set (accounts raw). has_pubkey m \<longrightarrow> is_public_key lib (key_text m)"
    and program: "is_public_key lib (programAddress raw)"
  shows "build_05 lib sdk blockhash = Inr (step5_transaction blockhash agent k raw)"
proof -
  from keys have "\<forall>m \<in> set (filter has_pubkey (accounts raw)).
      has_pubkey m \<and> is_public_key lib (key_text m)"
    by simp
  then have ks: "swapKeys_05 lib agent (accounts raw) =
      Inr (map (expected_key agent) (filter has_pubkey (accounts raw)))"
    unfolding swapKeys_05_def by (rule map_swap_key_valid)
  from program have pid: "new_PublicKey lib (programAddress raw) = Inr (PublicKey (programAddress raw))"
    by (simp add: new_PublicKey_def)
  show ?thesis
    by (simp add: build_05_def agent k raw ks pid andThen_Inr step5_transaction_def create_atas_def)
qed

lemma build_05_form:
  assumes "build_05 lib sdk blockhash = Inr tx"
  shows "\<exists>agent k raw. agentPubkey lib = Inr agent
           \<and> derive_pool_keys lib (RAYDIUM sdk) NATIVE_MINT agent = Inr k
           \<and> raw_swap lib sdk agent k 50000000 = Inr raw
           \<and> tx = step5_transaction blockhash agent k raw"
proof -
  from assms obtain agent k raw ks pid where
    agent: "agentPubkey lib = Inr agent"
    and k: "derive_pool_keys lib (RAYDIUM sdk) NATIVE_MINT agent = Inr k"
    and raw: "raw_swap lib sdk agent k 50000000 = Inr raw"
    and ks: "swapKeys_05 lib agent (accounts raw) = Inr ks"
    and pid: "new_PublicKey lib (programAddress raw) = Inr pid"
    and tx: "tx = \<lparr>recentBlockhash = blockhash, feePayer = agent,
          instructions =
            [SetComputeUnitLimit 600000, SetComputeUnitPrice 150000]
            @ create_atas agent k
            @ [SystemTransfer agent (inAta k) 50000000, SyncNative (inAta k) None]
            @ [TransactionInstruction pid ks (data raw)]
            @ [CloseAccount (inAta k) agent agent]\<rparr>"
    unfolding build_05_def andThen_Inr_iff by fastforce
  from ks have ks': "ks = map (expected_key agent) (filter has_pubkey (accounts raw))"
    unfolding swapKeys_05_def by (rule map_swap_key_Inr)
  from pid have pid': "pid = PublicKey (programAddress raw)"
    by (auto simp: new_PublicKey_def split: if_splits)
  have "tx = step5_transaction blockhash agent k raw"
    by (simp add: tx ks' pid' step5_transaction_def create_atas_def)
  with agent k raw show ?thesis by blast
qed

lemma build_02_missing_raises:
  assumes agent: "agentPubkey lib = Inr agent"
    and k: "derive_pool_keys lib (RAYDIUM sdk) USDC_MINT agent = Inr k"
    and raw: "raw_swap lib sdk agent k 5000000 = Inr raw"
    and bad: "\<exists>i. 0 < i \<and> i < length (accounts raw) \<and> \<not> has_pubkey (accounts raw ! i)"
  shows "\<exists>e. executeSkill_02 lib sdk blockhash = Inl e"
proof -
  from bad obtain i where "0 < i" "i < length (accounts raw)" "\<not> has_pubkey (accounts raw ! i)"
    by blast
  then have "\<exists>e. swapKeys_02 lib agent 0 (accounts raw) = Inl e"
    by (intro swapKeys_02_missing [of i]) simp_all
  then obtain e where "swapKeys_02 lib agent 0 (accounts raw) = Inl e" ..
  then have "executeSkill_02 lib sdk blockhash = Inl e"
    by (simp add: executeSkill_02_def build_02_def agent k raw andThen_Inr andThen_Inl)
  then show ?thesis ..
qed

lemma strict_is_public_key:
  "is_public_key strict_solana s = (s \<noteq> [] \<and> CHR '' '' \<notin> set s)"
  by (simp add: strict_solana_def)

lemma strict_agent: "agentPubkey strict_solana = Inr agent_default"
  by (simp add: agentPubkey_def strict_solana_def agent_default_def)

lemma strict_pool_keys_05:
  "derive_pool_keys strict_solana (RAYDIUM (sample_raydium metas)) NATIVE_MINT agent =
     Inr \<lparr>inputVault = PublicKey ''vault0'', outputVault = PublicKey ''vault1'',
          inputTokenProgram = PublicKey ''tokenProgram'',
          outputTokenProgram = PublicKey ''tokenProgram'',
          inputTokenMint = NATIVE_MINT, outputTokenMint = USDC_MINT,
          inAta = PublicKey ''ata-So11111111111111111111111111111111111111112'',
          outAta = PublicKey ''ata-EPjFWdd5AufqSSqeM2qN1xzybapC8G4wEGGkZwyTDt1v''\<rparr>"
  by (simp add: derive_pool_keys_def sample_raydium_def strict_solana_def NATIVE_MINT_def
      USDC_MINT_def new_PublicKey_def andThen_def associated_token_address_def)

lemma strict_pool_keys_02:
  "derive_pool_keys strict_solana (RAYDIUM (sample_raydium metas)) USDC_MINT agent =
     Inr \<lparr>inputVault = PublicKey ''vault1'', outputVault = PublicKey ''vault0'',
          inputTokenProgram = PublicKey ''tokenProgram'',
          outputTokenProgram = PublicKey ''tokenProgram'',
          inputTokenMint = USDC_MINT, outputTokenMint = NATIVE_MINT,
          inAta = PublicKey ''ata-EPjFWdd5AufqSSqeM2qN1xzybapC8G4wEGGkZwyTDt1v'',
          outAta = PublicKey ''ata-So11111111111111111111111111111111111111112''\<rparr>"
  by (simp add: derive_pool_keys_def sample_raydium_def strict_solana_def NATIVE_MINT_def
      USDC_MINT_def new_PublicKey_def andThen_def associated_token_address_def)

lemma strict_raw_swap:
  "raw_swap strict_solana (sample_raydium metas) agent k amount =
     Inr \<lparr>programAddress = ''CPMMoo8L3F4NbTegBCKVNunggL7H1ZpdTHKxQB5qKP1C'',
          accounts = metas, data = [143, 190, 90]\<rparr>"
  by (simp add: raw_swap_def sample_raydium_def strict_solana_def new_PublicKey_def andThen_def)

text \<open>
  C9, as amended. Step 5 drops every entry without a key and raises nothing for it. When
  the agent key and the pool keys are derived, the SDK returns the instruction \<open>raw\<close>,
  every key present in its account list is a valid key and its program address is one,
  step 5 builds \<open>step5_transaction\<close>: its one swap instruction carries exactly the entries
  that have a key, converted in order; and when this transaction serializes, step 5
  returns the base64 text of the serialization. Every transaction step 5 builds, and every
  text it returns, is of this form. Step 5 ends as it would if the builder had not
  returned the entries without a key. On an account list with an entry without a key at
  a nonzero index, step 2 raises.
\<close>

theorem step5_filters_keyless:
  "(agentPubkey lib = Inr agent
    \<and> derive_pool_keys lib (RAYDIUM sdk) NATIVE_MINT agent = Inr k
    \<and> raw_swap lib sdk agent k 50000000 = Inr raw
    \<and> (\<forall>m \<in> set (accounts raw). has_pubkey m \<longrightarrow> is_public_key lib (key_text m))
    \<and> is_public_key lib (programAddress raw)
    \<longrightarrow> build_05 lib sdk blockhash = Inr (step5_transaction blockhash agent k raw)
       \<and> executeSkill_05 lib sdk blockhash =
           serialize_base64 lib (step5_transaction blockhash agent k raw)
       \<and> (serialize lib \<lparr>requireAllSignatures = False, verifySignatures = False\<rparr>
             (step5_transaction blockhash agent k raw) = Inr buffer
           \<longrightarrow> executeSkill_05 lib sdk blockhash = Inr (base64 lib buffer)))
   \<and> (\<forall>tx. build_05 lib sdk blockhash = Inr tx \<longrightarrow>
         (\<exists>agent k raw. agentPubkey lib = Inr agent
            \<and> derive_pool_keys lib (RAYDIUM sdk) NATIVE_MINT agent = Inr k
            \<and> raw_swap lib sdk agent k 50000000 = Inr raw
            \<and> tx = step5_transaction blockhash agent k raw))
   \<and> (\<forall>s. executeSkill_05 lib sdk blockhash = Inr s \<longrightarrow>
         (\<exists>agent k raw buffer. agentPubkey lib = Inr agent
            \<and> derive_pool_keys lib (RAYDIUM sdk) NATIVE_MINT agent = Inr k
            \<and> raw_swap lib sdk agent k 50000000 = Inr raw
            \<and> serialize lib \<lparr>requireAllSignatures = False, verifySignatures = False\<rparr>
                 (step5_transaction blockhash agent k raw) = Inr buffer
            \<and> s = base64 lib buffer))
   \<and> executeSkill_05 lib sdk blockhash = executeSkill_05 lib (without_keyless sdk) blockhash
   \<and> (agentPubkey lib = Inr agent
      \<and> derive_pool_keys lib (RAYDIUM sdk) USDC_MINT agent = Inr k2
      \<and> raw_swap lib sdk agent k2 5000000 = Inr raw2
      \<and> (\<exists>i. 0 < i \<and> i < length (accounts raw2) \<and> \<not> has_pubkey (accounts raw2 ! i))
      \<longrightarrow> (\<exists>e. executeSkill_02 lib sdk blockhash = Inl e))"
proof (intro conjI allI impI)
  assume h: "agentPubkey lib = Inr agent
    \<and> derive_pool_keys lib (RAYDIUM sdk) NATIVE_MINT agent = Inr k
    \<and> raw_swap lib sdk agent k 50000000 = Inr raw
    \<and> (\<forall>m \<in> set (accounts raw). has_pubkey m \<longrightarrow> is_public_key lib (key_text m))
    \<and> is_public_key lib (programAddress raw)"
  then show built: "build_05 lib sdk blockhash = Inr (step5_transaction blockhash agent k raw)"
    by (intro build_05_returns) simp_all
  then show run: "executeSkill_05 lib sdk blockhash =
      serialize_base64 lib (step5_transaction blockhash agent k raw)"
    by (simp add: executeSkill_05_def andThen_Inr)
  assume "serialize lib \<lparr>requireAllSignatures = False, verifySignatures = False\<rparr>
            (step5_transaction blockhash agent k raw) = Inr buffer"
  then show "executeSkill_05 lib sdk blockhash = Inr (base64 lib buffer)"
    by (simp add: run serialize_base64_def andThen_Inr)
next
  fix tx assume "build_05 lib sdk blockhash = Inr tx"
  then show "\<exists>agent k raw. agentPubkey lib = Inr agent
            \<and> derive_pool_keys lib (RAYDIUM sdk) NATIVE_MINT agent = Inr k
            \<and> raw_swap lib sdk agent k 50000000 = Inr raw
            \<and> tx = step5_transaction blockhash agent k raw"
    by (rule build_05_form)
next
  fix s assume "executeSkill_05 lib sdk blockhash = Inr s"
  then obtain tx buffer where tx: "build_05 lib sdk blockhash = Inr tx"
    and buffer: "serialize lib \<lparr>requireAllSignatures = False, verifySignatures = False\<rparr> tx
                   = Inr buffer"
    and s: "s = base64 lib buffer"
    by (auto simp: executeSkill_05_def serialize_base64_def andThen_Inr_iff)
  from build_05_form [OF tx] buffer s
  show "\<exists>agent k raw buffer. agentPubkey lib = Inr agent
            \<and> derive_pool_keys lib (RAYDIUM sdk) NATIVE_MINT agent = Inr k
            \<and> raw_swap lib sdk agent k 50000000 = Inr raw
            \<and> serialize lib \<lparr>requireAllSignatures = False, verifySignatures = False\<rparr>
                 (step5_transaction blockhash agent k raw) = Inr buffer
            \<and> s = base64 lib buffer"
    by blast
next
  show "executeSkill_05 lib sdk blockhash = executeSkill_05 lib (without_keyless sdk) blockhash"
    by (simp add: executeSkill_05_def build_05_without_keyless)
next
  assume "agentPubkey lib = Inr agent
      \<and> derive_pool_keys lib (RAYDIUM sdk) USDC_MINT agent = Inr k2
      \<and> raw_swap lib sdk agent k2 5000000 = Inr raw2
      \<and> (\<exists>i. 0 < i \<and> i < length (accounts raw2) \<and> \<not> has_pubkey (accounts raw2 ! i))"
  then show "\<exists>e. executeSkill_02 lib sdk blockhash = Inl e"
    by (intro build_02_missing_raises [of lib agent sdk k2 raw2]) simp_all
qed


theorem step5_filters_keyless_witness:
  "build_05 strict_solana (sample_raydium [keyless, keyed ''poolState'', keyless])
      ''blockhash'' = Inr (sample_tx_05 [AccountMeta (PublicKey ''poolState'') False True])
   \<and> executeSkill_05 strict_solana (sample_raydium [keyless, keyed ''poolState'', keyless])
        ''blockhash'' = Inr ''00662113''
   \<and> (\<exists>e. executeSkill_02 strict_solana
              (sample_raydium [keyless, keyed ''poolState'', keyless]) ''blockhash'' = Inl e)"
proof -
  let ?metas = "[keyless, keyed ''poolState'', keyless]"
  let ?k = "\<lparr>inputVault = PublicKey ''vault0'', outputVault = PublicKey ''vault1'',
          inputTokenProgram = PublicKey ''tokenProgram'',
          outputTokenProgram = PublicKey ''tokenProgram'',
          inputTokenMint = NATIVE_MINT, outputTokenMint = USDC_MINT,
          inAta = PublicKey ''ata-So11111111111111111111111111111111111111112'',
          outAta = PublicKey ''ata-EPjFWdd5AufqSSqeM2qN1xzybapC8G4wEGGkZwyTDt1v''\<rparr>"
  let ?k2 = "\<lparr>inputVault = PublicKey ''vault1'', outputVault = PublicKey ''vault0'',
          inputTokenProgram = PublicKey ''tokenProgram'',
          outputTokenProgram = PublicKey ''tokenProgram'',
          inputTokenMint = USDC_MINT, outputTokenMint = NATIVE_MINT,
          inAta = PublicKey ''ata-EPjFWdd5AufqSSqeM2qN1xzybapC8G4wEGGkZwyTDt1v'',
          outAta = PublicKey ''ata-So11111111111111111111111111111111111111112''\<rparr>"
  let ?raw = "\<lparr>programAddress = ''CPMMoo8L3F4NbTegBCKVNunggL7H1ZpdTHKxQB5qKP1C'',
          accounts = ?metas, data = [143, 190, 90]\<rparr>"
  let ?tx = "step5_transaction ''blockhash'' agent_default ?k ?raw"
  note claim = step5_filters_keyless [where lib = strict_solana and agent = agent_default
      and sdk = "sample_raydium ?metas" and k = ?k and raw = ?raw
      and blockhash = "''blockhash''" and buffer = "[0, 0, 6, 6, 2, 1, 1, 3]"
      and ?k2.0 = ?k2 and ?raw2.0 = ?raw]
  have tx: "?tx = sample_tx_05 [AccountMeta (PublicKey ''poolState'') False True]"
    by (simp add: step5_transaction_def sample_tx_05_def has_pubkey_def keyless_def
        expected_key_def keyed_def key_text_def agent_default_def NATIVE_MINT_def USDC_MINT_def)
  have buffer: "serialize strict_solana \<lparr>requireAllSignatures = False, verifySignatures = False\<rparr>
      ?tx = Inr [0, 0, 6, 6, 2, 1, 1, 3]"
    by (simp add: tx strict_solana_def sample_tx_05_def)
  have encoded: "base64 strict_solana [0, 0, 6, 6, 2, 1, 1, 3] = ''00662113''"
    by (simp add: strict_solana_def digit_char_def)
  have five: "agentPubkey strict_solana = Inr agent_default
    \<and> derive_pool_keys strict_solana (RAYDIUM (sample_raydium ?metas)) NATIVE_MINT agent_default
        = Inr ?k
    \<and> raw_swap strict_solana (sample_raydium ?metas) agent_default ?k 50000000 = Inr ?raw
    \<and> (\<forall>m \<in> set (accounts ?raw). has_pubkey m \<longrightarrow> is_public_key strict_solana (key_text m))
    \<and> is_public_key strict_solana (programAddress ?raw)"
    by (simp add: strict_agent strict_pool_keys_05 strict_raw_swap has_pubkey_def keyless_def
        strict_is_public_key keyed_def key_text_def)
  have two: "agentPubkey strict_solana = Inr agent_default
    \<and> derive_pool_keys strict_solana (RAYDIUM (sample_raydium ?metas)) USDC_MINT agent_default
        = Inr ?k2
    \<and> raw_swap strict_solana (sample_raydium ?metas) agent_default ?k2 5000000 = Inr ?raw
    \<and> (\<exists>i. 0 < i \<and> i < length (accounts ?raw) \<and> \<not> has_pubkey (accounts ?raw ! i))"
  proof -
    have "0 < (2::nat) \<and> 2 < length (accounts ?raw) \<and> \<not> has_pubkey (accounts ?raw ! 2)"
      by (simp add: not_has_pubkey_keyless)
    then have "\<exists>i. 0 < i \<and> i < length (accounts ?raw) \<and> \<not> has_pubkey (accounts ?raw ! i)" ..
    then show ?thesis
      by (simp only: strict_agent strict_pool_keys_02 strict_raw_swap simp_thms)
  qed
  from claim five have built: "build_05 strict_solana (sample_raydium ?metas) ''blockhash'' = Inr ?tx"
    by blast
  from claim five buffer
  have "executeSkill_05 strict_solana (sample_raydium ?metas) ''blockhash'' =
      Inr (base64 strict_solana [0, 0, 6, 6, 2, 1, 1, 3])"
    by blast
  then have run: "executeSkill_05 strict_solana (sample_raydium ?metas) ''blockhash'' =
      Inr ''00662113''"
    by (simp only: encoded)
  from claim two have raises: "\<exists>e. executeSkill_02 strict_solana (sample_raydium ?metas)
      ''blockhash'' = Inl e"
    by blast
  from built have "build_05 strict_solana (sample_raydium ?metas) ''blockhash'' =
      Inr (sample_tx_05 [AccountMeta (PublicKey ''poolState'') False True])"
    by (simp only: tx)
  with run raises show ?thesis by blast
qed

text \<open>
  C9 as stated fails: step 5 does not return for every account list. On a list with an
  entry without a key at index 1 and an entry whose key text is no public key, step 2
  raises for the missing account and step 5 raises too, at \<^verbatim>\<open>new PublicKey(meta.pubkey)\<close>.
\<close>

theorem step5_raises_on_invalid_key:
  "executeSkill_05 strict_solana
      (sample_raydium [keyed ''poolState'', keyless, keyed ''not a key'']) ''blockhash'' =
     Inl (InvalidPublicKeyInput ''not a key'')
   \<and> executeSkill_02 strict_solana
      (sample_raydium [keyed ''poolState'', keyless, keyed ''not a key'']) ''blockhash'' =
     Inl (MissingAccount 1)"
  by (simp add: executeSkill_05_def build_05_def executeSkill_02_def build_02_def strict_agent
      strict_pool_keys_05 strict_pool_keys_02 strict_raw_swap andThen_Inr andThen_Inl
      swapKeys_05_def has_pubkey_def keyless_def swap_key_def keyed_def key_text_def
      new_PublicKey_def strict_is_public_key Let_def)

text \<open>
  C5, as amended. Whenever \<open>executeSkill\<close> of a builder (step 2, step 5, the Meteora step)
  returns a string, that string is the base64 text of the serialization, with
  \<open>requireAllSignatures\<close> and \<open>verifySignatures\<close> both false, of the transaction the builder
  built, whose recent blockhash is the blockhash supplied and whose fee payer is the
  configured agent key.
\<close>

theorem builders_return_serialized_transaction:
  "(\<forall>s. executeSkill_02 lib sdk blockhash = Inr s \<longrightarrow>
      (\<exists>tx buffer. build_02 lib sdk blockhash = Inr tx
         \<and> recentBlockhash tx = blockhash \<and> agentPubkey lib = Inr (feePayer tx)
         \<and> serialize lib \<lparr>requireAllSignatures = False, verifySignatures = False\<rparr> tx = Inr buffer
         \<and> s = base64 lib buffer))
   \<and> (\<forall>s. executeSkill_05 lib sdk blockhash = Inr s \<longrightarrow>
      (\<exists>tx buffer. build_05 lib sdk blockhash = Inr tx
         \<and> recentBlockhash tx = blockhash \<and> agentPubkey lib = Inr (feePayer tx)
         \<and> serialize lib \<lparr>requireAllSignatures = False, verifySignatures = False\<rparr> tx = Inr buffer
         \<and> s = base64 lib buffer))
   \<and> (\<forall>s. executeSkill_meteora lib dlmm blockhash = Inr s \<longrightarrow>
      (\<exists>tx buffer. build_meteora lib dlmm blockhash = Inr tx
         \<and> recentBlockhash tx = blockhash \<and> agentPubkey lib = Inr (feePayer tx)
         \<and> serialize lib \<lparr>requireAllSignatures = False, verifySignatures = False\<rparr> tx = Inr buffer
         \<and> s = base64 lib buffer))"
proof (intro conjI allI impI)
  fix s assume "executeSkill_02 lib sdk blockhash = Inr s"
  then obtain tx buffer where tx: "build_02 lib sdk blockhash = Inr tx"
    and "serialize lib \<lparr>requireAllSignatures = False, verifySignatures = False\<rparr> tx = Inr buffer"
    and "s = base64 lib buffer"
    by (auto simp: executeSkill_02_def serialize_base64_def andThen_Inr_iff)
  moreover from build_02_Inr [OF tx]
  have "recentBlockhash tx = blockhash \<and> agentPubkey lib = Inr (feePayer tx)" by auto
  ultimately show "\<exists>tx buffer. build_02 lib sdk blockhash = Inr tx
         \<and> recentBlockhash tx = blockhash \<and> agentPubkey lib = Inr (feePayer tx)
         \<and> serialize lib \<lparr>requireAllSignatures = False, verifySignatures = False\<rparr> tx = Inr buffer
         \<and> s = base64 lib buffer"
    by blast
next
  fix s assume "executeSkill_05 lib sdk blockhash = Inr s"
  then obtain tx buffer where tx: "build_05 lib sdk blockhash = Inr tx"
    and "serialize lib \<lparr>requireAllSignatures = False, verifySignatures = False\<rparr> tx = Inr buffer"
    and "s = base64 lib buffer"
    by (auto simp: executeSkill_05_def serialize_base64_def andThen_Inr_iff)
  moreover from build_05_Inr [OF tx]
  have "recentBlockhash tx = blockhash \<and> agentPubkey lib = Inr (feePayer tx)" by auto
  ultimately show "\<exists>tx buffer. build_05 lib sdk blockhash = Inr tx
         \<and> recentBlockhash tx = blockhash \<and> agentPubkey lib = Inr (feePayer tx)
         \<and> serialize lib \<lparr>requireAllSignatures = False, verifySignatures = False\<rparr> tx = Inr buffer
         \<and> s = base64 lib buffer"
    by blast
next
  fix s assume "executeSkill_meteora lib dlmm blockhash = Inr s"
  then obtain tx buffer where tx: "build_meteora lib dlmm blockhash = Inr tx"
    and "serialize lib \<lparr>requireAllSignatures = False, verifySignatures = False\<rparr> tx = Inr buffer"
    and "s = base64 lib buffer"
    by (auto simp: executeSkill_meteora_def serialize_base64_def andThen_Inr_iff)
  moreover from build_meteora_Inr [OF tx]
  have "recentBlockhash tx = blockhash \<and> agentPubkey lib = Inr (feePayer tx)" by auto
  ultimately show "\<exists>tx buffer. build_meteora lib dlmm blockhash = Inr tx
         \<and> recentBlockhash tx = blockhash \<and> agentPubkey lib = Inr (feePayer tx)
         \<and> serialize lib \<lparr>requireAllSignatures = False, verifySignatures = False\<rparr> tx = Inr buffer
         \<and> s = base64 lib buffer"
    by blast
qed

theorem builders_return_serialized_transaction_witness:
  "executeSkill_05 sample_solana (sample_raydium [keyless, keyed ''poolState'', keyless])
      ''blockhash'' = Inr ''94''
   \<and> (\<exists>tx. build_05 sample_solana (sample_raydium [keyless, keyed ''poolState'', keyless])
              ''blockhash'' = Inr tx
         \<and> recentBlockhash tx = ''blockhash'' \<and> feePayer tx = agent_default)"
proof -
  let ?sdk = "sample_raydium [keyless, keyed ''poolState'', keyless]"
  have run: "executeSkill_05 sample_solana ?sdk ''blockhash'' = Inr ''94''"
    by (simp add: executeSkill_05_def sample_build_05 [OF sample_swapKeys_05] andThen_Inr
        sample_serialize)
  with builders_return_serialized_transaction [of sample_solana ?sdk "''blockhash''"]
  obtain tx where "build_05 sample_solana ?sdk ''blockhash'' = Inr tx"
    "recentBlockhash tx = ''blockhash''" "agentPubkey sample_solana = Inr (feePayer tx)"
    by blast
  then show ?thesis
    using run by (auto simp: sample_agent)
qed

text \<open>
  C5 as stated fails: when the builder returns two entries without keys, step 2 raises
  for the missing account at index 1 and returns no string.
\<close>

theorem step2_raises_on_keyless_account:
  "executeSkill_02 sample_solana (sample_raydium [keyless, keyless]) ''blockhash'' =
     Inl (MissingAccount 1)"
  by (simp add: executeSkill_02_def build_02_def sample_agent sample_pool_keys_02
      sample_raw_swap andThen_Inr andThen_Inl not_has_pubkey_keyless)


section \<open>Properties of the pool discovery\<close>

lemma retry_loop_unfold:
  "retry_loop sdk cand pk k n le =
     (if k < MAX_RETRIES then
        (case attempt sdk n pk of
           Inr vars \<Rightarrow>
             \<lparr>lbPairFound = Some pk, result_meteora = Some vars, lastError = le,
              rejected = None, calls = Suc n, timeline = [Attempt cand k True]\<rparr>
         | Inl inner \<Rightarrow>
             (retry_loop sdk cand pk (Suc k) (Suc n) (Some inner))
               \<lparr>timeline :=
                  Attempt cand k False
                  # (if Suc k < MAX_RETRIES then [Sleep RETRY_DELAY_MS] else [])
                  @ timeline (retry_loop sdk cand pk (Suc k) (Suc n) (Some inner))\<rparr>)
      else
        \<lparr>lbPairFound = None, result_meteora = None, lastError = le,
         rejected = None, calls = n, timeline = []\<rparr>)"
  by (subst retry_loop.simps) (simp add: Let_def split: sum.splits)

lemma retry_loop_done:
  "\<not> k < MAX_RETRIES \<Longrightarrow> timeline (retry_loop sdk cand pk k n le) = []"
  by (subst retry_loop_unfold) simp

lemma retry_loop_head:
  "k < MAX_RETRIES \<Longrightarrow>
   \<exists>ok rest. timeline (retry_loop sdk cand pk k n le) = Attempt cand k ok # rest"
  by (subst retry_loop_unfold) (auto split: sum.splits)

lemma retry_loop_events:
  "e \<in> set (timeline (retry_loop sdk cand pk k n le)) \<Longrightarrow>
   (\<exists>j ok. e = Attempt cand j ok \<and> k \<le> j \<and> j < MAX_RETRIES) \<or> e = Sleep RETRY_DELAY_MS"
proof (induction sdk cand pk k n le rule: retry_loop.induct)
  case (1 sdk cand pk k n le)
  show ?case
  proof (cases "k < MAX_RETRIES")
    case False
    with "1.prems" show ?thesis by (simp add: retry_loop_done)
  next
    case True
    show ?thesis
    proof (cases "attempt sdk n pk")
      case (Inr vars)
      with True "1.prems" show ?thesis
        by (subst (asm) retry_loop_unfold) auto
    next
      case (Inl inner)
      from "1.prems" True Inl
      have "e = Attempt cand k False \<or> e = Sleep RETRY_DELAY_MS
            \<or> e \<in> set (timeline (retry_loop sdk cand pk (Suc k) (Suc n) (Some inner)))"
        by (subst (asm) retry_loop_unfold) (auto split: if_splits)
      with "1.IH" [OF True Inl] True show ?thesis
        by (auto intro: Suc_leD)
    qed
  qed
qed

lemma retry_loop_attempts:
  "length (filter (is_attempt_on c) (timeline (retry_loop sdk cand pk k n le)))
     \<le> (if c = cand then MAX_RETRIES - k else 0)"
proof (induction sdk cand pk k n le rule: retry_loop.induct)
  case (1 sdk cand pk k n le)
  show ?case
  proof (cases "k < MAX_RETRIES")
    case False
    then show ?thesis by (simp add: retry_loop_done)
  next
    case True
    show ?thesis
    proof (cases "attempt sdk n pk")
      case (Inr vars)
      with True show ?thesis
        by (subst retry_loop_unfold) auto
    next
      case (Inl inner)
      with "1.IH" [OF True Inl] True show ?thesis
        by (subst retry_loop_unfold) (auto split: if_splits)
    qed
  qed
qed

lemma retry_loop_length:
  "length (timeline (retry_loop sdk cand pk k n le)) \<le> 2 * (MAX_RETRIES - k) - 1"
proof (induction sdk cand pk k n le rule: retry_loop.induct)
  case (1 sdk cand pk k n le)
  show ?case
  proof (cases "k < MAX_RETRIES")
    case False
    then show ?thesis by (simp add: retry_loop_done)
  next
    case True
    show ?thesis
    proof (cases "attempt sdk n pk")
      case (Inr vars)
      with True show ?thesis
        by (subst retry_loop_unfold) auto
    next
      case (Inl inner)
      show ?thesis
      proof (cases "Suc k < MAX_RETRIES")
        case False
        with True Inl show ?thesis
          by (subst retry_loop_unfold) (simp add: retry_loop_done)
      next
        case yes: True
        with "1.IH" [OF True Inl] True Inl show ?thesis
          by (subst retry_loop_unfold) auto
      qed
    qed
  qed
qed

lemma retry_loop_paced:
  "paced (timeline (retry_loop sdk cand pk k n le))"
proof (induction sdk cand pk k n le rule: retry_loop.induct)
  case (1 sdk cand pk k n le)
  show ?case
  proof (cases "k < MAX_RETRIES")
    case False
    then show ?thesis by (simp add: retry_loop_done)
  next
    case True
    show ?thesis
    proof (cases "attempt sdk n pk")
      case (Inr vars)
      with True show ?thesis
        by (subst retry_loop_unfold) simp
    next
      case (Inl inner)
      let ?r = "retry_loop sdk cand pk (Suc k) (Suc n) (Some inner)"
      show ?thesis
      proof (cases "Suc k < MAX_RETRIES")
        case False
        with True have "Suc k = MAX_RETRIES" by simp
        with True Inl False show ?thesis
          by (subst retry_loop_unfold) (simp add: retry_loop_done)
      next
        case yes: True
        from retry_loop_head [OF yes] obtain ok rest where
          t: "timeline ?r = Attempt cand (Suc k) ok # rest"
          by blast
        with "1.IH" [OF True Inl] True Inl yes show ?thesis
          by (subst retry_loop_unfold) simp
      qed
    qed
  qed
qed

lemma retry_loop_exhausted:
  "lbPairFound (retry_loop sdk cand pk k n le) = None \<Longrightarrow> k < MAX_RETRIES \<Longrightarrow>
   timeline (retry_loop sdk cand pk k n le) \<noteq> []
   \<and> last (timeline (retry_loop sdk cand pk k n le)) = Attempt cand (MAX_RETRIES - 1) False"
proof (induction sdk cand pk k n le rule: retry_loop.induct)
  case (1 sdk cand pk k n le)
  note found = "1.prems"(1) and lt = "1.prems"(2)
  show ?case
  proof (cases "attempt sdk n pk")
    case (Inr vars)
    with found lt show ?thesis
      by (subst (asm) retry_loop_unfold) simp
  next
    case (Inl inner)
    let ?r = "retry_loop sdk cand pk (Suc k) (Suc n) (Some inner)"
    from found lt Inl have none: "lbPairFound ?r = None"
      by (subst (asm) retry_loop_unfold) simp
    show ?thesis
    proof (cases "Suc k < MAX_RETRIES")
      case False
      with lt have "k = MAX_RETRIES - 1" by simp
      with lt Inl False show ?thesis
        by (subst (1 2) retry_loop_unfold) (simp add: retry_loop_done)
    next
      case yes: True
      from "1.IH" [OF lt Inl none yes] lt Inl yes show ?thesis
        by (subst (1 2) retry_loop_unfold) simp
    qed
  qed
qed

lemma paced_append:
  "paced t1 \<Longrightarrow> t1 \<noteq> [] \<Longrightarrow> last t1 = Attempt c (MAX_RETRIES - 1) False \<Longrightarrow> paced t2 \<Longrightarrow>
   t2 = [] \<or> (\<exists>c' ok rest. t2 = Attempt c' 0 ok # rest) \<Longrightarrow> paced (t1 @ t2)"
proof (induction t1 rule: paced.induct)
  case 1
  then show ?case by simp
next
  case (2 d rest)
  then show ?case by simp
next
  case (3 c' n ok)
  then show ?case by (auto simp: MAX_RETRIES_def)
next
  case (4 c' n ok d rest)
  then show ?case by (cases rest) (auto split: event.splits)
next
  case (5 c1 n ok c2 n' ok' rest)
  then show ?case by (auto split: if_splits)
qed

lemma paced_success_is_last:
  "paced t \<Longrightarrow> i < length t \<Longrightarrow> t ! i = Attempt c n True \<Longrightarrow> Suc i = length t"
proof (induction t arbitrary: i rule: paced.induct)
  case 1
  then show ?case by simp
next
  case (2 d rest)
  then show ?case by simp
next
  case (3 c' n' ok)
  then show ?case by simp
next
  case (4 c' n' ok d rest)
  show ?case
  proof (cases i)
    case 0
    with "4.prems" show ?thesis by simp
  next
    case (Suc j)
    show ?thesis
    proof (cases j)
      case 0
      with Suc "4.prems" show ?thesis by simp
    next
      case (Suc m)
      with \<open>i = Suc j\<close> "4.prems" "4.IH" [of m] show ?thesis by simp
    qed
  qed
next
  case (5 c1 n1 ok c2 n2 ok2 rest)
  show ?case
  proof (cases i)
    case 0
    with "5.prems" show ?thesis by simp
  next
    case (Suc j)
    with "5.prems" "5.IH" [of j] show ?thesis by auto
  qed
qed

lemma candidates_loop_Cons:
  "candidates_loop lib sdk (cand # rest) n le =
     (case new_PublicKey lib cand of
        Inl e \<Rightarrow>
          \<lparr>lbPairFound = None, result_meteora = None, lastError = le,
           rejected = Some e, calls = n, timeline = []\<rparr>
      | Inr pk \<Rightarrow>
          if lbPairFound (retry_loop sdk cand pk 0 n le) \<noteq> None
          then retry_loop sdk cand pk 0 n le
          else (candidates_loop lib sdk rest (calls (retry_loop sdk cand pk 0 n le))
                  (lastError (retry_loop sdk cand pk 0 n le)))
                 \<lparr>timeline := timeline (retry_loop sdk cand pk 0 n le)
                    @ timeline (candidates_loop lib sdk rest
                        (calls (retry_loop sdk cand pk 0 n le))
                        (lastError (retry_loop sdk cand pk 0 n le)))\<rparr>)"
  by (simp add: Let_def split: sum.splits)

declare candidates_loop.simps(2) [simp del]

lemma candidates_loop_events:
  "e \<in> set (timeline (candidates_loop lib sdk cands n le)) \<Longrightarrow>
   (\<exists>c j ok. e = Attempt c j ok \<and> c \<in> set cands \<and> j < MAX_RETRIES) \<or> e = Sleep RETRY_DELAY_MS"
proof (induction cands arbitrary: n le)
  case Nil
  then show ?case by simp
next
  case (Cons cand rest)
  show ?case
  proof (cases "new_PublicKey lib cand")
    case (Inl err)
    with Cons.prems show ?thesis by (simp add: candidates_loop_Cons)
  next
    case (Inr pk)
    let ?r = "retry_loop sdk cand pk 0 n le"
    from Cons.prems Inr
    have "e \<in> set (timeline ?r)
          \<or> e \<in> set (timeline (candidates_loop lib sdk rest (calls ?r) (lastError ?r)))"
      by (auto simp: candidates_loop_Cons split: if_splits)
    then show ?thesis
    proof
      assume "e \<in> set (timeline ?r)"
      from retry_loop_events [OF this] show ?thesis by auto
    next
      assume "e \<in> set (timeline (candidates_loop lib sdk rest (calls ?r) (lastError ?r)))"
      from Cons.IH [OF this] show ?thesis by auto
    qed
  qed
qed

lemma candidates_loop_attempts:
  "length (filter (is_attempt_on c) (timeline (candidates_loop lib sdk cands n le)))
     \<le> MAX_RETRIES * count_list cands c"
proof (induction cands arbitrary: n le)
  case Nil
  then show ?case by simp
next
  case (Cons cand rest)
  show ?case
  proof (cases "new_PublicKey lib cand")
    case (Inl err)
    then show ?thesis by (simp add: candidates_loop_Cons)
  next
    case (Inr pk)
    let ?r = "retry_loop sdk cand pk 0 n le"
    have one: "length (filter (is_attempt_on c) (timeline ?r))
                 \<le> (if c = cand then MAX_RETRIES else 0)"
      using retry_loop_attempts [of c sdk cand pk 0 n le] by (simp split: if_splits)
    have more: "length (filter (is_attempt_on c)
                  (timeline (candidates_loop lib sdk rest (calls ?r) (lastError ?r))))
                 \<le> MAX_RETRIES * count_list rest c"
      by (rule Cons.IH)
    from one more Inr show ?thesis
      by (auto simp: candidates_loop_Cons)
  qed
qed

lemma candidates_loop_length:
  "length (timeline (candidates_loop lib sdk cands n le))
     \<le> (2 * MAX_RETRIES - 1) * length cands"
proof (induction cands arbitrary: n le)
  case Nil
  then show ?case by simp
next
  case (Cons cand rest)
  show ?case
  proof (cases "new_PublicKey lib cand")
    case (Inl err)
    then show ?thesis by (simp add: candidates_loop_Cons)
  next
    case (Inr pk)
    let ?r = "retry_loop sdk cand pk 0 n le"
    have one: "length (timeline ?r) \<le> 2 * MAX_RETRIES - 1"
      using retry_loop_length [of sdk cand pk 0 n le] by simp
    have more: "length (timeline (candidates_loop lib sdk rest (calls ?r) (lastError ?r)))
                 \<le> (2 * MAX_RETRIES - 1) * length rest"
      by (rule Cons.IH)
    from one more Inr show ?thesis
      by (auto simp: candidates_loop_Cons)
  qed
qed

lemma candidates_loop_paced:
  "paced (timeline (candidates_loop lib sdk cands n le))
   \<and> (timeline (candidates_loop lib sdk cands n le) = []
      \<or> (\<exists>c ok rest. timeline (candidates_loop lib sdk cands n le) = Attempt c 0 ok # rest))"
proof (induction cands arbitrary: n le)
  case Nil
  then show ?case by simp
next
  case (Cons cand rest)
  show ?case
  proof (cases "new_PublicKey lib cand")
    case (Inl err)
    then show ?thesis by (simp add: candidates_loop_Cons)
  next
    case (Inr pk)
    let ?r = "retry_loop sdk cand pk 0 n le"
    let ?r' = "candidates_loop lib sdk rest (calls ?r) (lastError ?r)"
    have zero: "0 < MAX_RETRIES" by (simp add: MAX_RETRIES_def)
    from retry_loop_head [OF zero] obtain ok tl where
      hd: "timeline ?r = Attempt cand 0 ok # tl"
      by blast
    have p: "paced (timeline ?r)" by (rule retry_loop_paced)
    show ?thesis
    proof (cases "lbPairFound ?r = None")
      case False
      with Inr p hd show ?thesis by (simp add: candidates_loop_Cons)
    next
      case True
      from retry_loop_exhausted [OF True zero]
      have "timeline ?r \<noteq> []"
        and "last (timeline ?r) = Attempt cand (MAX_RETRIES - 1) False"
        by simp_all
      moreover from Cons.IH [of "calls ?r" "lastError ?r"]
      have "paced (timeline ?r')"
        and "timeline ?r' = [] \<or> (\<exists>c ok rest. timeline ?r' = Attempt c 0 ok # rest)"
        by simp_all
      ultimately have "paced (timeline ?r @ timeline ?r')"
        using p by (intro paced_append)
      with True Inr hd show ?thesis by (simp add: candidates_loop_Cons)
    qed
  qed
qed

lemma candidates_distinct:
  "cliMeteora \<noteq> Some ''HTvjzsfX3yU6BUodCjZ5vZkUrAxMDTrBs3CJaq43ashR'' \<Longrightarrow>
   distinct (meteoraLbPairCandidates cliMeteora)"
  by (auto simp: meteoraLbPairCandidates_def split: option.splits)

lemma count_list_distinct: "distinct xs \<Longrightarrow> count_list xs x \<le> 1"
  by (induction xs) auto

text \<open>
  C7, as amended. For every candidate list, the timeline of the Meteora loop has these
  properties. Every attempt is on a candidate of the list and starts with \<open>retryCount\<close>
  below \<open>MAX_RETRIES = 10\<close>: each entry of the list is attempted at most 10 times, so a
  pool that stands \<open>m\<close> times in the list is attempted at most \<open>10 * m\<close> times, and at
  most 10 times when the list has no pool twice, as it is whenever \<^verbatim>\<open>--meteora-lbpair\<close>
  is not the built-in pool. Every sleep lasts \<open>RETRY_DELAY_MS = 1000\<close> milliseconds, and
  the timeline is paced: a sleep stands exactly between a failed attempt and the next
  attempt on the same entry, and none between the last attempt on an entry and the first
  on the next. A successful attempt is the last event: no further attempt, on this or
  another candidate, follows it. The loop is a total function (its termination is proved
  with its definition), and its timeline has at most \<open>19 * length cands\<close> events.
\<close>

theorem meteora_retry_loop_bounded:
  "MAX_RETRIES = 10 \<and> RETRY_DELAY_MS = 1000
   \<and> (\<forall>c n ok. Attempt c n ok \<in> set (timeline (discover_meteora lib sdk cands)) \<longrightarrow>
         c \<in> set cands \<and> n < MAX_RETRIES)
   \<and> (\<forall>c. length (filter (is_attempt_on c) (timeline (discover_meteora lib sdk cands)))
         \<le> MAX_RETRIES * count_list cands c)
   \<and> (distinct cands \<longrightarrow>
        (\<forall>c. length (filter (is_attempt_on c) (timeline (discover_meteora lib sdk cands)))
           \<le> 10))
   \<and> (cliMeteora \<noteq> Some ''HTvjzsfX3yU6BUodCjZ5vZkUrAxMDTrBs3CJaq43ashR'' \<longrightarrow>
        distinct (meteoraLbPairCandidates cliMeteora))
   \<and> (\<forall>d. Sleep d \<in> set (timeline (discover_meteora lib sdk cands)) \<longrightarrow> d = RETRY_DELAY_MS)
   \<and> paced (timeline (discover_meteora lib sdk cands))
   \<and> (\<forall>i c n. i < length (timeline (discover_meteora lib sdk cands))
         \<and> timeline (discover_meteora lib sdk cands) ! i = Attempt c n True \<longrightarrow>
         Suc i = length (timeline (discover_meteora lib sdk cands)))
   \<and> length (timeline (discover_meteora lib sdk cands)) \<le> 19 * length cands"
proof -
  let ?t = "timeline (discover_meteora lib sdk cands)"
  have ev: "e \<in> set ?t \<Longrightarrow>
      (\<exists>c j ok. e = Attempt c j ok \<and> c \<in> set cands \<and> j < MAX_RETRIES) \<or> e = Sleep RETRY_DELAY_MS"
    for e
    unfolding discover_meteora_def by (rule candidates_loop_events)
  have attempts: "\<forall>c n ok. Attempt c n ok \<in> set ?t \<longrightarrow> c \<in> set cands \<and> n < MAX_RETRIES"
    using ev by fastforce
  have sleeps: "\<forall>d. Sleep d \<in> set ?t \<longrightarrow> d = RETRY_DELAY_MS"
    using ev by fastforce
  have count: "\<forall>c. length (filter (is_attempt_on c) ?t) \<le> MAX_RETRIES * count_list cands c"
    unfolding discover_meteora_def by (simp add: candidates_loop_attempts)
  have once: "distinct cands \<longrightarrow> (\<forall>c. length (filter (is_attempt_on c) ?t) \<le> 10)"
  proof (intro impI allI)
    fix c assume "distinct cands"
    then have "count_list cands c \<le> 1" by (rule count_list_distinct)
    then have "MAX_RETRIES * count_list cands c \<le> 10"
      by (simp add: MAX_RETRIES_def)
    with count show "length (filter (is_attempt_on c) ?t) \<le> 10"
      using le_trans by blast
  qed
  have builtin: "cliMeteora \<noteq> Some ''HTvjzsfX3yU6BUodCjZ5vZkUrAxMDTrBs3CJaq43ashR'' \<longrightarrow>
      distinct (meteoraLbPairCandidates cliMeteora)"
    using candidates_distinct by blast
  have p: "paced ?t"
    unfolding discover_meteora_def using candidates_loop_paced by blast
  have stop: "\<forall>i c n. i < length ?t \<and> ?t ! i = Attempt c n True \<longrightarrow> Suc i = length ?t"
    using paced_success_is_last [OF p] by blast
  have len: "length ?t \<le> 19 * length cands"
    using candidates_loop_length [of lib sdk cands 0 None]
    by (simp add: discover_meteora_def MAX_RETRIES_def)
  show ?thesis
    using attempts sleeps count once builtin p stop len
    by (simp add: MAX_RETRIES_def RETRY_DELAY_MS_def)
qed

lemma attempt_flaky_fails:
  "n < k \<Longrightarrow> attempt (flaky_sdk k) n pk = Inl (RpcError ''fetch failed'')"
  by (simp add: attempt_def flaky_sdk_def andThen_def)

lemma attempt_flaky_succeeds:
  "\<not> n < k \<Longrightarrow> \<exists>vars. attempt (flaky_sdk k) n pk = Inr vars"
  by (simp add: attempt_def flaky_sdk_def andThen_def NATIVE_MINT_def USDC_MINT_def from_Set_def)

lemma sample_timeline:
  "timeline (discover_meteora sample_solana (flaky_sdk 2) [''poolA'', ''poolB'']) =
     [Attempt ''poolA'' 0 False, Sleep 1000, Attempt ''poolA'' 1 False, Sleep 1000,
      Attempt ''poolA'' 2 True]"
proof -
  let ?rpc = "Some (RpcError ''fetch failed'')"
  let ?third = "retry_loop (flaky_sdk 2) ''poolA'' (PublicKey ''poolA'') (Suc (Suc 0))
                  (Suc (Suc 0)) ?rpc"
  obtain vars where ok: "attempt (flaky_sdk 2) (Suc (Suc 0)) (PublicKey ''poolA'') = Inr vars"
    using attempt_flaky_succeeds [of "Suc (Suc 0)" 2] by auto
  have third: "timeline ?third = [Attempt ''poolA'' 2 True]"
    by (subst retry_loop_unfold) (simp add: ok MAX_RETRIES_def)
  have found: "lbPairFound ?third = Some (PublicKey ''poolA'')"
    by (subst retry_loop_unfold) (simp add: ok MAX_RETRIES_def)
  have second: "retry_loop (flaky_sdk 2) ''poolA'' (PublicKey ''poolA'') (Suc 0) (Suc 0) ?rpc =
     ?third\<lparr>timeline := [Attempt ''poolA'' 1 False, Sleep 1000, Attempt ''poolA'' 2 True]\<rparr>"
    by (subst retry_loop_unfold)
       (simp add: attempt_flaky_fails MAX_RETRIES_def RETRY_DELAY_MS_def third)
  have first: "retry_loop (flaky_sdk 2) ''poolA'' (PublicKey ''poolA'') 0 0 None =
     ?third\<lparr>timeline := [Attempt ''poolA'' 0 False, Sleep 1000, Attempt ''poolA'' 1 False,
                         Sleep 1000, Attempt ''poolA'' 2 True]\<rparr>"
    by (subst retry_loop_unfold)
       (simp add: attempt_flaky_fails MAX_RETRIES_def RETRY_DELAY_MS_def second)
  show ?thesis
    by (simp add: discover_meteora_def candidates_loop_Cons new_PublicKey_def
        sample_is_public_key first found)
qed

theorem meteora_retry_loop_bounded_witness:
  "timeline (discover_meteora sample_solana (flaky_sdk 2) [''poolA'', ''poolB'']) =
     [Attempt ''poolA'' 0 False, Sleep 1000, Attempt ''poolA'' 1 False, Sleep 1000,
      Attempt ''poolA'' 2 True]
   \<and> Suc 4 = length (timeline (discover_meteora sample_solana (flaky_sdk 2) [''poolA'', ''poolB'']))
   \<and> length (filter (is_attempt_on ''poolB'')
        (timeline (discover_meteora sample_solana (flaky_sdk 2) [''poolA'', ''poolB'']))) \<le> 10
   \<and> length (filter (is_attempt_on ''poolA'')
        (timeline (discover_meteora sample_solana (flaky_sdk 2) [''poolA'', ''poolB'']))) \<le> 10
   \<and> distinct (meteoraLbPairCandidates (Some ''poolA''))"
proof -
  let ?t = "timeline (discover_meteora sample_solana (flaky_sdk 2) [''poolA'', ''poolB''])"
  note claim = meteora_retry_loop_bounded [of sample_solana "flaky_sdk 2" "[''poolA'', ''poolB'']"
      "Some ''poolA''"]
  have at: "4 < length ?t \<and> ?t ! 4 = Attempt ''poolA'' 2 True"
    by (simp add: sample_timeline)
  with claim have last: "Suc 4 = length ?t" by blast
  from claim have "length (filter (is_attempt_on ''poolB'') ?t)
      \<le> MAX_RETRIES * count_list [''poolA'', ''poolB''] ''poolB''"
    by blast
  then have other: "length (filter (is_attempt_on ''poolB'') ?t) \<le> 10"
    by (simp add: MAX_RETRIES_def)
  have "distinct [''poolA'', ''poolB'']" by simp
  with claim have once: "length (filter (is_attempt_on ''poolA'') ?t) \<le> 10"
    by blast
  have "Some ''poolA'' \<noteq> Some ''HTvjzsfX3yU6BUodCjZ5vZkUrAxMDTrBs3CJaq43ashR''" by simp
  with claim have cli: "distinct (meteoraLbPairCandidates (Some ''poolA''))"
    by blast
  have shown: "?t = [Attempt ''poolA'' 0 False, Sleep 1000, Attempt ''poolA'' 1 False,
      Sleep 1000, Attempt ''poolA'' 2 True]"
    by (rule sample_timeline)
  from shown last other once cli show ?thesis by blast
qed

lemma twice_list:
  "meteoraLbPairCandidates (Some ''HTvjzsfX3yU6BUodCjZ5vZkUrAxMDTrBs3CJaq43ashR'') =
     [''HTvjzsfX3yU6BUodCjZ5vZkUrAxMDTrBs3CJaq43ashR'', ''HTvjzsfX3yU6BUodCjZ5vZkUrAxMDTrBs3CJaq43ashR'']"
  by (simp add: meteoraLbPairCandidates_def)

lemma failing_first_round:
  "retry_loop (flaky_sdk 20) c pk 0 0 None =
     \<lparr>lbPairFound = None, result_meteora = None,
      lastError = Some (RpcError ''fetch failed''), rejected = None, calls = 10,
      timeline =
        [Attempt c 0 False, Sleep 1000, Attempt c 1 False, Sleep 1000,
         Attempt c 2 False, Sleep 1000, Attempt c 3 False, Sleep 1000,
         Attempt c 4 False, Sleep 1000, Attempt c 5 False, Sleep 1000,
         Attempt c 6 False, Sleep 1000, Attempt c 7 False, Sleep 1000,
         Attempt c 8 False, Sleep 1000, Attempt c 9 False]\<rparr>"
  by (simp add: retry_loop.simps attempt_flaky_fails MAX_RETRIES_def RETRY_DELAY_MS_def Let_def)

lemma failing_second_round:
  "retry_loop (flaky_sdk 20) c pk 0 10 (Some (RpcError ''fetch failed'')) =
     \<lparr>lbPairFound = None, result_meteora = None,
      lastError = Some (RpcError ''fetch failed''), rejected = None, calls = 20,
      timeline =
        [Attempt c 0 False, Sleep 1000, Attempt c 1 False, Sleep 1000,
         Attempt c 2 False, Sleep 1000, Attempt c 3 False, Sleep 1000,
         Attempt c 4 False, Sleep 1000, Attempt c 5 False, Sleep 1000,
         Attempt c 6 False, Sleep 1000, Attempt c 7 False, Sleep 1000,
         Attempt c 8 False, Sleep 1000, Attempt c 9 False]\<rparr>"
  by (simp add: retry_loop.simps attempt_flaky_fails MAX_RETRIES_def RETRY_DELAY_MS_def Let_def)

lemma twice_timeline:
  "timeline (discover_meteora sample_solana (flaky_sdk 20) [c, c]) =
     (if c = [] then [] else
        [Attempt c 0 False, Sleep 1000, Attempt c 1 False, Sleep 1000,
         Attempt c 2 False, Sleep 1000, Attempt c 3 False, Sleep 1000,
         Attempt c 4 False, Sleep 1000, Attempt c 5 False, Sleep 1000,
         Attempt c 6 False, Sleep 1000, Attempt c 7 False, Sleep 1000,
         Attempt c 8 False, Sleep 1000, Attempt c 9 False,
         Attempt c 0 False, Sleep 1000, Attempt c 1 False, Sleep 1000,
         Attempt c 2 False, Sleep 1000, Attempt c 3 False, Sleep 1000,
         Attempt c 4 False, Sleep 1000, Attempt c 5 False, Sleep 1000,
         Attempt c 6 False, Sleep 1000, Attempt c 7 False, Sleep 1000,
         Attempt c 8 False, Sleep 1000, Attempt c 9 False])"
  by (simp add: discover_meteora_def candidates_loop_Cons new_PublicKey_def
        sample_is_public_key failing_first_round failing_second_round)

text \<open>
  C7 as stated fails: with \<^verbatim>\<open>--meteora-lbpair\<close> set to the built-in pool the candidate
  list holds that pool twice, and when every attempt fails the pool is attempted 20
  times; the tenth attempt (event 18) is followed at once, with no sleep, by the
  eleventh (event 19).
\<close>

theorem meteora_pool_listed_twice:
  "meteoraLbPairCandidates (Some ''HTvjzsfX3yU6BUodCjZ5vZkUrAxMDTrBs3CJaq43ashR'') =
     [''HTvjzsfX3yU6BUodCjZ5vZkUrAxMDTrBs3CJaq43ashR'',
      ''HTvjzsfX3yU6BUodCjZ5vZkUrAxMDTrBs3CJaq43ashR'']
   \<and> length (filter (is_attempt_on ''HTvjzsfX3yU6BUodCjZ5vZkUrAxMDTrBs3CJaq43ashR'')
        (timeline (discover_meteora sample_solana (flaky_sdk 20)
           (meteoraLbPairCandidates (Some ''HTvjzsfX3yU6BUodCjZ5vZkUrAxMDTrBs3CJaq43ashR''))))) = 20
   \<and> timeline (discover_meteora sample_solana (flaky_sdk 20)
        (meteoraLbPairCandidates (Some ''HTvjzsfX3yU6BUodCjZ5vZkUrAxMDTrBs3CJaq43ashR''))) ! 18 =
       Attempt ''HTvjzsfX3yU6BUodCjZ5vZkUrAxMDTrBs3CJaq43ashR'' 9 False
   \<and> timeline (discover_meteora sample_solana (flaky_sdk 20)
        (meteoraLbPairCandidates (Some ''HTvjzsfX3yU6BUodCjZ5vZkUrAxMDTrBs3CJaq43ashR''))) ! 19 =
       Attempt ''HTvjzsfX3yU6BUodCjZ5vZkUrAxMDTrBs3CJaq43ashR'' 0 False"
  by (simp add: twice_list twice_timeline)


section \<open>Properties of the replay driver\<close>

lemma driver_at_Suc: "driver_at env (Suc k) = driver_step env (driver_at env k)"
  by (simp add: driver_at_def)

lemma driver_at_0: "driver_at env 0 = Pending 0"
  by (simp add: driver_at_def)

lemma halted_stays: "driver_at env k = Halted \<Longrightarrow> driver_at env (k + m) = Halted"
  by (induction m) (simp_all add: driver_at_Suc)

lemma step_index_mono:
  "attempts_step (driver_step env s) = Some j \<Longrightarrow> \<exists>i. attempts_step s = Some i \<and> i \<le> j"
  by (cases s) (auto split: if_splits build_result.splits)

lemma index_mono:
  "attempts_step (driver_at env (k + m)) = Some j \<Longrightarrow>
   \<exists>i. attempts_step (driver_at env k) = Some i \<and> i \<le> j"
proof (induction m arbitrary: j)
  case 0
  then show ?case by simp
next
  case (Suc m)
  then have "attempts_step (driver_step env (driver_at env (k + m))) = Some j"
    by (simp add: driver_at_Suc)
  from step_index_mono [OF this] obtain i where
    "attempts_step (driver_at env (k + m)) = Some i" "i \<le> j"
    by blast
  with Suc.IH [of i] show ?case by force
qed

text \<open>
  C8. If the driver reaches \<open>Done(i, CrashedRemote)\<close>, its next state is \<open>Halted\<close>, it stays
  \<open>Halted\<close> ever after, and no state of the run, before or after, works on a step with an
  index greater than \<open>i\<close>.
\<close>

theorem crashed_remote_halts:
  assumes "driver_at env k = Done i CrashedRemote"
  shows "driver_at env (Suc k) = Halted
       \<and> (\<forall>m. k < m \<longrightarrow> driver_at env m = Halted)
       \<and> (\<forall>m j. attempts_step (driver_at env m) = Some j \<longrightarrow> j \<le> i)"
proof (intro conjI allI impI)
  show next_state: "driver_at env (Suc k) = Halted"
    using assms by (simp add: driver_at_Suc)
  show later: "driver_at env m = Halted" if "k < m" for m
  proof -
    from that obtain d where "m = Suc k + d"
      using less_iff_Suc_add by auto
    with halted_stays [OF next_state, of d] show ?thesis by simp
  qed
  show "j \<le> i" if a: "attempts_step (driver_at env m) = Some j" for m j
  proof (cases "k < m")
    case True
    with later a show ?thesis by simp
  next
    case False
    then obtain d where "k = m + d"
      using le_Suc_ex not_less by blast
    with assms have "attempts_step (driver_at env (m + d)) = Some i" by simp
    from index_mono [OF this] a show ?thesis by simp
  qed
qed

lemma five_steps_crash: "driver_at five_steps 18 = Done 4 CrashedRemote"
  by (simp add: driver_at_def five_steps_def eval_nat_numeral)

theorem crashed_remote_halts_witness:
  "driver_at five_steps 18 = Done 4 CrashedRemote
   \<and> driver_at five_steps 19 = Halted
   \<and> driver_at five_steps 40 = Halted"
proof -
  from crashed_remote_halts [OF five_steps_crash]
  have "driver_at five_steps (Suc 18) = Halted" and "driver_at five_steps 40 = Halted"
    by simp_all
  with five_steps_crash show ?thesis by simp
qed


end
